theory Spec2Isabelle
  imports
    Complex_Main
    "HOL-Library.Char_ord"
    "HOL-Library.List_Lexorder"
    "HOL-Library.Product_Lexorder"
    "HOL-Library.Multiset"
begin

section \<open>Python values used by the two scripts\<close>

text \<open>
  A Python \<open>str\<close> is modelled as a \<open>string\<close>, one \<open>char\<close> per code point, so
  only code points below 256 are covered. The order on strings is the lexicographic
  order on code points, as Python's comparison of two \<open>str\<close>; \<open>sort_key\<close> is a stable
  sort, as \<open>list.sort\<close> is.
\<close>

text \<open>\<open>str.isspace\<close> on code points below 256 (what \<open>str.strip()\<close> removes).\<close>

definition is_space :: "char \<Rightarrow> bool" where
  "is_space c =
     (c \<in> set [CHR 0x09, CHR 0x0A, CHR 0x0B, CHR 0x0C, CHR 0x0D,
               CHR 0x1C, CHR 0x1D, CHR 0x1E, CHR 0x1F, CHR 0x20, CHR 0x85, CHR 0xA0])"

text \<open>
  The blanks that \<open>int(str)\<close> and \<open>float(str)\<close> skip at both ends: the ASCII
  blanks, and the non-ASCII spaces, which CPython turns into a blank before parsing.
  The separators \<open>0x1C\<close> .. \<open>0x1F\<close> are not among them.
\<close>

definition is_num_space :: "char \<Rightarrow> bool" where
  "is_num_space c =
     (c \<in> set [CHR 0x09, CHR 0x0A, CHR 0x0B, CHR 0x0C, CHR 0x0D, CHR 0x20, CHR 0x85, CHR 0xA0])"

definition strip_with :: "(char \<Rightarrow> bool) \<Rightarrow> string \<Rightarrow> string" where
  "strip_with p s = rev (dropWhile p (rev (dropWhile p s)))"

text \<open>\<open>s.strip()\<close>\<close>

definition strip :: "string \<Rightarrow> string" where
  "strip s = strip_with is_space s"

text \<open>\<open>s.lower()\<close> on code points below 256: A-Z, and the Latin-1 capitals except the
  multiplication sign.\<close>

definition lower_char :: "char \<Rightarrow> char" where
  "lower_char c =
     (let n = (of_char c :: nat)
      in if (65 \<le> n \<and> n \<le> 90) \<or> (192 \<le> n \<and> n \<le> 222 \<and> n \<noteq> 215)
         then char_of (n + 32) else c)"

definition lower :: "string \<Rightarrow> string" where
  "lower s = map lower_char s"

text \<open>\<open>s.replace(c, "")\<close> for a one-character \<open>c\<close>\<close>

definition remove_char :: "char \<Rightarrow> string \<Rightarrow> string" where
  "remove_char c s = filter (\<lambda>x. x \<noteq> c) s"

text \<open>\<open>s.split(c)\<close> for a one-character separator: never empty, \<open>"".split(c) == [""]\<close>.
  The last case of the inner \<open>case\<close> is never reached.\<close>

fun split_on :: "char \<Rightarrow> string \<Rightarrow> string list" where
  "split_on c [] = [[]]"
| "split_on c (x # xs) =
     (if x = c then [] # split_on c xs
      else (case split_on c xs of p # ps \<Rightarrow> (x # p) # ps | [] \<Rightarrow> [[x]]))"

text \<open>\<open>sep.join(parts)\<close>\<close>

fun join :: "string \<Rightarrow> string list \<Rightarrow> string" where
  "join sep [] = []"
| "join sep [p] = p"
| "join sep (p # q # ps) = p @ sep @ join sep (q # ps)"

subsection \<open>Numbers\<close>

text \<open>
  A Python \<open>float\<close>. The numbers are exact rationals: the rounding of a decimal literal
  and of a quotient to binary64 is not modelled, nor the overflow of a literal such as
  \<open>1e400\<close> to infinity, nor the underflow of a tiny value to zero. Which strings
  \<open>float\<close> rejects does not depend on that. A value named below, such as \<open>2 / 5\<close>,
  stands for the binary64 number next to it. The only fact stated about the size of a
  quotient is that a number between 0 and 100 divided by 100 lies between 0 and 1, which
  rounding keeps, since it is monotone and 0, 1 and 100 are exact; the converse is not
  stated, since it fails in binary64 (\<open>-5e-324 / 100.0\<close> is \<open>-0.0\<close>).
\<close>

datatype pyfloat = Finite rat | PosInf | NegInf | NaN

definition is_digit :: "char \<Rightarrow> bool" where
  "is_digit c = (c \<in> set ''0123456789'')"

definition digit_val :: "char \<Rightarrow> nat" where
  "digit_val c = of_char c - 48"

text \<open>The grammar \<open>digit (["_"] digit)*\<close> of \<open>int()\<close> and \<open>float()\<close>: the digits
  with the underscores taken out, \<open>None\<close> when the text is not of that form.\<close>

fun digitpart :: "string \<Rightarrow> string option" where
  "digitpart [] = None"
| "digitpart [c] = (if is_digit c then Some [c] else None)"
| "digitpart (c # d # cs) =
     (if is_digit c
      then (if d = CHR ''_'' then map_option (Cons c) (digitpart cs)
            else map_option (Cons c) (digitpart (d # cs)))
      else None)"

definition nat_of_digits :: "string \<Rightarrow> nat" where
  "nat_of_digits ds = foldl (\<lambda>a c. 10 * a + digit_val c) 0 ds"

definition decimal :: "string \<Rightarrow> nat option" where
  "decimal s = map_option nat_of_digits (digitpart s)"

text \<open>An optional sign, then a decimal.\<close>

definition signed_decimal :: "string \<Rightarrow> int option" where
  "signed_decimal s =
     (case s of
        [] \<Rightarrow> None
      | c # cs \<Rightarrow>
          if c = CHR ''-'' then map_option (\<lambda>n. - int n) (decimal cs)
          else if c = CHR ''+'' then map_option int (decimal cs)
          else map_option int (decimal s))"

text \<open>\<open>int(s)\<close> for a \<open>str\<close>, base 10; \<open>None\<close> is \<open>ValueError\<close>. (The
  interpreter's limit on the number of digits is not modelled.)\<close>

definition int_of_str :: "string \<Rightarrow> int option" where
  "int_of_str s = signed_decimal (strip_with is_num_space s)"

text \<open>The mantissa \<open>[digitpart] "." digitpart | digitpart ["."]\<close>.\<close>

definition mantissa :: "string \<Rightarrow> rat option" where
  "mantissa m =
     (let ip = takeWhile (\<lambda>c. c \<noteq> CHR ''.'') m;
          r = dropWhile (\<lambda>c. c \<noteq> CHR ''.'') m
      in case r of
           [] \<Rightarrow> map_option of_nat (decimal ip)
         | _ # fp \<Rightarrow>
             if fp = [] then map_option of_nat (decimal ip)
             else (case digitpart fp of
                     None \<Rightarrow> None
                   | Some fd \<Rightarrow>
                       if ip = [] then Some (of_nat (nat_of_digits fd) / 10 ^ length fd)
                       else map_option
                              (\<lambda>n. of_nat n + of_nat (nat_of_digits fd) / 10 ^ length fd)
                              (decimal ip)))"

text \<open>The exponent \<open>("e" | "E") [sign] digitpart\<close>, or nothing.\<close>

definition exponent :: "string \<Rightarrow> int option" where
  "exponent r = (case r of [] \<Rightarrow> Some 0 | _ # ds \<Rightarrow> signed_decimal ds)"

definition floatnumber :: "string \<Rightarrow> rat option" where
  "floatnumber s =
     (let m = takeWhile (\<lambda>c. c \<noteq> CHR ''e'' \<and> c \<noteq> CHR ''E'') s;
          r = dropWhile (\<lambda>c. c \<noteq> CHR ''e'' \<and> c \<noteq> CHR ''E'') s
      in case exponent r of
           None \<Rightarrow> None
         | Some ex \<Rightarrow>
             map_option
               (\<lambda>q. if 0 \<le> ex then q * 10 ^ nat ex else q / 10 ^ nat (- ex))
               (mantissa m))"

definition absfloatvalue :: "string \<Rightarrow> pyfloat option" where
  "absfloatvalue u =
     (if lower u = ''inf'' \<or> lower u = ''infinity'' then Some PosInf
      else if lower u = ''nan'' then Some NaN
      else map_option Finite (floatnumber u))"

definition negate :: "pyfloat \<Rightarrow> pyfloat" where
  "negate f = (case f of Finite q \<Rightarrow> Finite (- q) | PosInf \<Rightarrow> NegInf
               | NegInf \<Rightarrow> PosInf | NaN \<Rightarrow> NaN)"

text \<open>\<open>float(s)\<close> for a \<open>str\<close>; \<open>None\<close> is \<open>ValueError\<close>. The value is the exact
  value of the literal.\<close>

definition float_of_str :: "string \<Rightarrow> pyfloat option" where
  "float_of_str s =
     (case strip_with is_num_space s of
        [] \<Rightarrow> None
      | c # cs \<Rightarrow>
          if c = CHR ''-'' then map_option negate (absfloatvalue cs)
          else if c = CHR ''+'' then absfloatvalue cs
          else absfloatvalue (c # cs))"

text \<open>\<open>x / 100.0\<close>, without the rounding of the quotient.\<close>

definition div100 :: "pyfloat \<Rightarrow> pyfloat" where
  "div100 f = (case f of Finite q \<Rightarrow> Finite (q / 100) | PosInf \<Rightarrow> PosInf
               | NegInf \<Rightarrow> NegInf | NaN \<Rightarrow> NaN)"


subsection \<open>Raw JSON values and exceptions\<close>

text \<open>
  The values found under the keys of one raw body record: the JSON scalars, and arrays of
  strings (the dataclasses declare \<open>List[str]\<close> for the list fields). Arrays of other
  values and nested objects inside a body record are outside the model.
\<close>

datatype json = JNull | JBool bool | JInt int | JFloat pyfloat | JStr string | JStrs "string list"

datatype error =
  KeyError string | AttributeError | TypeError | ValueError | OverflowError | IntegrityError
| ProgrammingError

text \<open>A \<open>dict\<close> read from JSON: an association list with distinct keys, in file order.\<close>

type_synonym raw_body = "(string \<times> json) list"
type_synonym raw_system = "(string \<times> raw_body) list"
type_synonym raw_data = "(string \<times> raw_system) list"

text \<open>\<open>d[k]\<close>\<close>

definition getitem :: "raw_body \<Rightarrow> string \<Rightarrow> error + json" where
  "getitem d k = (case map_of d k of None \<Rightarrow> Inl (KeyError k) | Some v \<Rightarrow> Inr v)"

definition err_bind :: "error + 'a \<Rightarrow> ('a \<Rightarrow> error + 'b) \<Rightarrow> error + 'b" where
  "err_bind m f = (case m of Inl e \<Rightarrow> Inl e | Inr x \<Rightarrow> f x)"

text \<open>\<open>v.lower()\<close>: only a \<open>str\<close> has the method.\<close>

definition str_lower :: "json \<Rightarrow> error + string" where
  "str_lower v = (case v of JStr s \<Rightarrow> Inr (lower s) | _ \<Rightarrow> Inl AttributeError)"

text \<open>\<open>int(q)\<close> for a finite float: towards zero.\<close>

definition truncate :: "rat \<Rightarrow> int" where
  "truncate q = (if 0 \<le> q then \<lfloor>q\<rfloor> else \<lceil>q\<rceil>)"

text \<open>\<open>int(v)\<close>\<close>

definition py_int :: "json \<Rightarrow> error + int" where
  "py_int v =
     (case v of
        JStr s \<Rightarrow> (case int_of_str s of Some i \<Rightarrow> Inr i | None \<Rightarrow> Inl ValueError)
      | JInt i \<Rightarrow> Inr i
      | JBool b \<Rightarrow> Inr (if b then 1 else 0)
      | JFloat f \<Rightarrow>
          (case f of Finite q \<Rightarrow> Inr (truncate q) | NaN \<Rightarrow> Inl ValueError
           | _ \<Rightarrow> Inl OverflowError)
      | _ \<Rightarrow> Inl TypeError)"

text \<open>Iterating a value (\<open>for x in v\<close>, \<open>list.extend(v)\<close>): a \<open>str\<close> yields its
  characters.\<close>

definition py_iter :: "json \<Rightarrow> error + string list" where
  "py_iter v =
     (case v of JStrs xs \<Rightarrow> Inr xs | JStr s \<Rightarrow> Inr (map (\<lambda>c. [c]) s) | _ \<Rightarrow> Inl TypeError)"

section \<open>restructure.py\<close>

text \<open>The dataclasses. The \<open>name\<close> fields of \<open>Biome\<close> and \<open>OrganicResource\<close> are
  \<open>biome_name\<close> and \<open>organic_name\<close> here, and \<open>Body.type\<close> is \<open>body_type\<close>.\<close>

record Biome =
  biome_name :: string
  coverage :: pyfloat

record OrganicResource =
  organic_name :: string
  resource :: string

record Body =
  system :: string
  name :: string
  atmosphere :: string
  fauna :: int
  flora :: int
  gravity :: pyfloat
  hab_rank :: int
  magnetosphere :: string
  planet_length :: int
  temperature :: string
  body_type :: json
  water :: string
  biomes :: "Biome list"
  traits :: "string list"
  resources :: "string list"
  domesticable :: "OrganicResource list"
  gatherable :: "OrganicResource list"

text \<open>\<open>Body()\<close>\<close>

definition new_body :: Body where
  "new_body =
     \<lparr>system = [], name = [], atmosphere = [], fauna = 0, flora = 0, gravity = Finite 1,
      hab_rank = 0, magnetosphere = [], planet_length = 0, temperature = [],
      body_type = JStr [], water = [], biomes = [], traits = [], resources = [],
      domesticable = [], gatherable = []\<rparr>"

text \<open>The lines printed by \<open>restructure.py\<close>: the offending raw value, the system and the
  body. The wording of the line is not modelled.\<close>

datatype diag =
  InvalidFauna json string string
| InvalidFlora json string string
| InvalidHabRank json string string
| InvalidPlanetLength json string string
| InvalidBiome string string string

text \<open>A computation that prints and then returns or raises.\<close>

type_synonym 'a run = "diag list \<times> (error + 'a)"

definition pure :: "'a \<Rightarrow> 'a run" where
  "pure x = ([], Inr x)"

definition raise :: "error \<Rightarrow> 'a run" where
  "raise e = ([], Inl e)"

definition warn :: "diag \<Rightarrow> 'a \<Rightarrow> 'a run" where
  "warn w x = ([w], Inr x)"

definition then_do :: "'a run \<Rightarrow> ('a \<Rightarrow> 'b run) \<Rightarrow> 'b run" where
  "then_do r f =
     (case r of
        (out, Inl e) \<Rightarrow> (out, Inl e)
      | (out, Inr x) \<Rightarrow> (case f x of (out', y) \<Rightarrow> (out @ out', y)))"

subsection \<open>The fields of one body, in the order of the source\<close>

text \<open>Line 113, and lines 141, 152, 154: \<open>body_data[k].lower()\<close>.\<close>

definition lower_field :: "raw_body \<Rightarrow> string \<Rightarrow> error + string" where
  "lower_field d k = err_bind (getitem d k) str_lower"

definition set_atmosphere :: "raw_body \<Rightarrow> Body \<Rightarrow> Body run" where
  "set_atmosphere d b =
     (case lower_field d ''atmosphere'' of
        Inl e \<Rightarrow> raise e | Inr s \<Rightarrow> pure (b\<lparr>atmosphere := s\<rparr>))"

text \<open>Lines 115-129 and 133-139: \<open>int(body_data[k])\<close> with a handler for
  \<open>ValueError\<close> only.\<close>

definition int_field :: "raw_body \<Rightarrow> string \<Rightarrow> (json \<Rightarrow> diag) \<Rightarrow> int run" where
  "int_field d k w =
     (case getitem d k of
        Inl e \<Rightarrow> raise e
      | Inr v \<Rightarrow>
          (case py_int v of
             Inr i \<Rightarrow> pure i
           | Inl e \<Rightarrow> if e = ValueError then warn (w v) 0 else raise e))"

definition set_fauna :: "string \<Rightarrow> string \<Rightarrow> raw_body \<Rightarrow> Body \<Rightarrow> Body run" where
  "set_fauna sys bn d b =
     then_do (int_field d ''fauna'' (\<lambda>v. InvalidFauna v sys bn)) (\<lambda>i. pure (b\<lparr>fauna := i\<rparr>))"

definition set_flora :: "string \<Rightarrow> string \<Rightarrow> raw_body \<Rightarrow> Body \<Rightarrow> Body run" where
  "set_flora sys bn d b =
     then_do (int_field d ''flora'' (\<lambda>v. InvalidFlora v sys bn)) (\<lambda>i. pure (b\<lparr>flora := i\<rparr>))"

text \<open>Line 131: \<open>float(body_data["gravity"].replace("g", "").strip())\<close>, no handler.\<close>

definition parse_gravity :: "json \<Rightarrow> error + pyfloat" where
  "parse_gravity v =
     (case v of
        JStr s \<Rightarrow>
          (case float_of_str (strip (remove_char (CHR ''g'') s)) of
             Some f \<Rightarrow> Inr f | None \<Rightarrow> Inl ValueError)
      | _ \<Rightarrow> Inl AttributeError)"

definition set_gravity :: "raw_body \<Rightarrow> Body \<Rightarrow> Body run" where
  "set_gravity d b =
     (case err_bind (getitem d ''gravity'') parse_gravity of
        Inl e \<Rightarrow> raise e | Inr f \<Rightarrow> pure (b\<lparr>gravity := f\<rparr>))"

definition set_hab_rank :: "string \<Rightarrow> string \<Rightarrow> raw_body \<Rightarrow> Body \<Rightarrow> Body run" where
  "set_hab_rank sys bn d b =
     then_do (int_field d ''hab_rank'' (\<lambda>v. InvalidHabRank v sys bn))
       (\<lambda>i. pure (b\<lparr>hab_rank := i\<rparr>))"

definition set_magnetosphere :: "raw_body \<Rightarrow> Body \<Rightarrow> Body run" where
  "set_magnetosphere d b =
     (case lower_field d ''magnetosphere'' of
        Inl e \<Rightarrow> raise e | Inr s \<Rightarrow> pure (b\<lparr>magnetosphere := s\<rparr>))"

text \<open>Lines 142-150: the lookup is inside the \<open>try\<close>, but a \<open>KeyError\<close> is not
  handled; a value that is not a \<open>str\<close> has no \<open>split\<close> (\<open>AttributeError\<close>, handled);
  \<open>parts[0]\<close> exists since \<open>split\<close> never returns an empty list.\<close>

definition parse_planet_length :: "json \<Rightarrow> int option" where
  "parse_planet_length pl =
     (case pl of JStr s \<Rightarrow> int_of_str (hd (split_on (CHR '' '') s)) | _ \<Rightarrow> None)"

definition set_planet_length :: "string \<Rightarrow> string \<Rightarrow> raw_body \<Rightarrow> Body \<Rightarrow> Body run" where
  "set_planet_length sys bn d b =
     (case getitem d ''planet_length'' of
        Inl e \<Rightarrow> raise e
      | Inr pl \<Rightarrow>
          (case parse_planet_length pl of
             Some i \<Rightarrow> pure (b\<lparr>planet_length := i\<rparr>)
           | None \<Rightarrow> warn (InvalidPlanetLength pl sys bn) (b\<lparr>planet_length := 24\<rparr>)))"

definition set_temperature :: "raw_body \<Rightarrow> Body \<Rightarrow> Body run" where
  "set_temperature d b =
     (case lower_field d ''temperature'' of
        Inl e \<Rightarrow> raise e | Inr s \<Rightarrow> pure (b\<lparr>temperature := s\<rparr>))"

definition set_type :: "raw_body \<Rightarrow> Body \<Rightarrow> Body run" where
  "set_type d b =
     (case getitem d ''type'' of Inl e \<Rightarrow> raise e | Inr v \<Rightarrow> pure (b\<lparr>body_type := v\<rparr>))"

definition set_water :: "raw_body \<Rightarrow> Body \<Rightarrow> Body run" where
  "set_water d b =
     (case lower_field d ''water'' of Inl e \<Rightarrow> raise e | Inr s \<Rightarrow> pure (b\<lparr>water := s\<rparr>))"


text \<open>Lines 156-172. Inside the \<open>try\<close>: a string with a percent sign is split at every
  blank, the name is \<open>" ".join(parts[0:-1])\<close> and the coverage
  \<open>float(parts[-1].replace("%", "")) / 100.0\<close>; \<open>None\<close> is the \<open>ValueError\<close> of
  \<open>float\<close>, the only exception these lines raise on a \<open>str\<close>.\<close>

definition parse_biome :: "string \<Rightarrow> Biome option" where
  "parse_biome biome_str =
     (if CHR ''%'' \<in> set biome_str
      then (let parts = split_on (CHR '' '') biome_str
            in case float_of_str (remove_char (CHR ''%'') (last parts)) of
                 None \<Rightarrow> None
               | Some f \<Rightarrow>
                   Some \<lparr>biome_name = join '' '' (butlast parts), coverage = div100 f\<rparr>)
      else Some \<lparr>biome_name = biome_str, coverage = Finite 0\<rparr>)"

fun biome_loop :: "string \<Rightarrow> string \<Rightarrow> string list \<Rightarrow> Body \<Rightarrow> Body run" where
  "biome_loop sys bn [] b = pure b"
| "biome_loop sys bn (biome_str # rest) b =
     (case parse_biome biome_str of
        Some biome \<Rightarrow> biome_loop sys bn rest (b\<lparr>biomes := biomes b @ [biome]\<rparr>)
      | None \<Rightarrow> then_do (warn (InvalidBiome biome_str sys bn) b) (biome_loop sys bn rest))"

definition iter_field :: "raw_body \<Rightarrow> string \<Rightarrow> error + string list" where
  "iter_field d k = err_bind (getitem d k) py_iter"

definition set_biomes :: "string \<Rightarrow> string \<Rightarrow> raw_body \<Rightarrow> Body \<Rightarrow> Body run" where
  "set_biomes sys bn d b =
     (case iter_field d ''biomes'' of
        Inl e \<Rightarrow> raise e
      | Inr strs \<Rightarrow>
          then_do (biome_loop sys bn strs b)
            (\<lambda>b'. pure (b'\<lparr>biomes := sort_key biome_name (biomes b')\<rparr>)))"

text \<open>Lines 174-175.\<close>

definition set_traits :: "raw_body \<Rightarrow> Body \<Rightarrow> Body run" where
  "set_traits d b =
     (case iter_field d ''traits'' of
        Inl e \<Rightarrow> raise e
      | Inr xs \<Rightarrow> pure (b\<lparr>traits := sort (traits b @ xs)\<rparr>))"

text \<open>Lines 177-178: the resources are appended, and it is the traits that are sorted
  once more.\<close>

definition set_resources :: "raw_body \<Rightarrow> Body \<Rightarrow> Body run" where
  "set_resources d b =
     (case iter_field d ''resources'' of
        Inl e \<Rightarrow> raise e
      | Inr xs \<Rightarrow> pure (b\<lparr>resources := resources b @ xs, traits := sort (traits b)\<rparr>))"

text \<open>Lines 181-185 and 190-194: \<open>parts[0].strip()\<close> and
  \<open>parts[-1].replace(")", "").strip()\<close> of \<open>dom.split("(")\<close> (\<open>dom\<close> is
  \<open>dom_str\<close> here).\<close>

definition parse_organic :: "string \<Rightarrow> OrganicResource" where
  "parse_organic dom_str =
     (let parts = split_on (CHR ''('') dom_str
      in \<lparr>organic_name = strip (hd parts),
          resource = strip (remove_char (CHR '')'') (last parts))\<rparr>)"

definition set_domesticable :: "raw_body \<Rightarrow> Body \<Rightarrow> Body run" where
  "set_domesticable d b =
     (case iter_field d ''domesticable'' of
        Inl e \<Rightarrow> raise e
      | Inr xs \<Rightarrow>
          pure (b\<lparr>domesticable :=
                    sort_key organic_name (domesticable b @ map parse_organic xs)\<rparr>))"

definition set_gatherable :: "raw_body \<Rightarrow> Body \<Rightarrow> Body run" where
  "set_gatherable d b =
     (case iter_field d ''gatherable'' of
        Inl e \<Rightarrow> raise e
      | Inr xs \<Rightarrow>
          pure (b\<lparr>gatherable :=
                    sort_key organic_name (gatherable b @ map parse_organic xs)\<rparr>))"

subsection \<open>One body, all bodies, the galaxy\<close>

fun run_steps :: "(Body \<Rightarrow> Body run) list \<Rightarrow> Body \<Rightarrow> Body run" where
  "run_steps [] b = pure b"
| "run_steps (step # steps) b = then_do (step b) (run_steps steps)"

text \<open>The body of the inner loop, lines 110-196.\<close>

definition normalize_body :: "string \<Rightarrow> string \<Rightarrow> raw_body \<Rightarrow> Body run" where
  "normalize_body sys bn d =
     run_steps
       [set_atmosphere d, set_fauna sys bn d, set_flora sys bn d, set_gravity d,
        set_hab_rank sys bn d, set_magnetosphere d, set_planet_length sys bn d,
        set_temperature d, set_type d, set_water d, set_biomes sys bn d, set_traits d,
        set_resources d, set_domesticable d, set_gatherable d]
       (new_body\<lparr>system := sys, name := bn\<rparr>)"

text \<open>The two loops, lines 108-198: the bodies in file order; an exception ends the run.\<close>

fun normalize_bodies :: "string \<Rightarrow> raw_system \<Rightarrow> Body list run" where
  "normalize_bodies sys [] = pure []"
| "normalize_bodies sys ((bn, d) # rest) =
     then_do (normalize_body sys bn d)
       (\<lambda>b. then_do (normalize_bodies sys rest) (\<lambda>bs. pure (b # bs)))"

fun normalize_systems :: "raw_data \<Rightarrow> Body list run" where
  "normalize_systems [] = pure []"
| "normalize_systems ((sys, bodies) # rest) =
     then_do (normalize_bodies sys bodies)
       (\<lambda>bs. then_do (normalize_systems rest) (\<lambda>cs. pure (bs @ cs)))"

text \<open>Line 199: \<open>galaxy.sort(key=attrgetter("system", "name"))\<close>.\<close>

definition assemble :: "Body list \<Rightarrow> Body list" where
  "assemble galaxy = sort_key (\<lambda>b. (system b, name b)) galaxy"

text \<open>\<open>main\<close> of \<open>restructure.py\<close>: what is printed, and the galaxy written to
  \<open>galaxy.json\<close>, or the exception that ended the run before the file was opened.\<close>

definition restructure :: "raw_data \<Rightarrow> Body list run" where
  "restructure raw = then_do (normalize_systems raw) (\<lambda>galaxy. pure (assemble galaxy))"

subsection \<open>What a successful normalization returns\<close>

text \<open>The value and the printed line of \<open>int(v)\<close> under the handler of lines 115-139, and
  the values for which the handler does not apply.\<close>

definition int_value :: "json \<Rightarrow> int" where
  "int_value v = (case py_int v of Inr i \<Rightarrow> i | Inl _ \<Rightarrow> 0)"

definition int_warning :: "(json \<Rightarrow> diag) \<Rightarrow> json \<Rightarrow> diag list" where
  "int_warning w v = (if py_int v = Inl ValueError then [w v] else [])"

definition int_fatal :: "json \<Rightarrow> bool" where
  "int_fatal v = (py_int v = Inl TypeError \<or> py_int v = Inl OverflowError)"

definition planet_length_value :: "json \<Rightarrow> int" where
  "planet_length_value pl = (case parse_planet_length pl of Some i \<Rightarrow> i | None \<Rightarrow> 24)"

definition planet_length_warning :: "string \<Rightarrow> string \<Rightarrow> json \<Rightarrow> diag list" where
  "planet_length_warning sys bn pl =
     (if parse_planet_length pl = None then [InvalidPlanetLength pl sys bn] else [])"

definition biome_warnings :: "string \<Rightarrow> string \<Rightarrow> string list \<Rightarrow> diag list" where
  "biome_warnings sys bn strs =
     map (\<lambda>s. InvalidBiome s sys bn) (filter (\<lambda>s. parse_biome s = None) strs)"

subsection \<open>The wording of the specification, for comparison\<close>

text \<open>\<open>s.split()\<close>: the maximal runs of characters that are not whitespace.\<close>

fun ws_tokens :: "string \<Rightarrow> string \<Rightarrow> string list" where
  "ws_tokens cur [] = (if cur = [] then [] else [cur])"
| "ws_tokens cur (c # cs) =
     (if is_space c then (if cur = [] then ws_tokens [] cs else cur # ws_tokens [] cs)
      else ws_tokens (cur @ [c]) cs)"

definition split_ws :: "string \<Rightarrow> string list" where
  "split_ws s = ws_tokens [] s"

text \<open>The name of a biome entry with a percent sign as the specification words it: split
  on whitespace, all tokens except the last, rejoined with single spaces.\<close>

definition spec_biome_name :: "string \<Rightarrow> string" where
  "spec_biome_name biome_str = join '' '' (butlast (split_ws biome_str))"



text \<open>A fraction in the closed interval from 0 to 1.\<close>

definition in_unit_interval :: "pyfloat \<Rightarrow> bool" where
  "in_unit_interval f = (case f of Finite q \<Rightarrow> 0 \<le> q \<and> q \<le> 1 | _ \<Rightarrow> False)"

text \<open>An organic entry as the specification words it: split on the first parenthesis, the
  name is the text before it, trimmed, and the resource the text after it with the trailing
  closing parenthesis stripped, trimmed.\<close>

definition spec_parse_organic :: "string \<Rightarrow> OrganicResource" where
  "spec_parse_organic entry =
     (let before = takeWhile (\<lambda>c. c \<noteq> CHR ''('') entry;
          after = drop 1 (dropWhile (\<lambda>c. c \<noteq> CHR ''('') entry)
      in \<lparr>organic_name = strip before,
          resource = strip (if after \<noteq> [] \<and> last after = CHR '')'' then butlast after
                            else after)\<rparr>)"

subsection \<open>Example input\<close>

text \<open>A raw body record with the fauna, the planet length, the biomes and the domesticable
  entries left open, and what it normalizes to.\<close>

definition example_body :: "json \<Rightarrow> json \<Rightarrow> string list \<Rightarrow> string list \<Rightarrow> raw_body" where
  "example_body fa pl bio doms =
     [(''atmosphere'', JStr ''Std O2''), (''fauna'', fa), (''flora'', JStr ''12''),
      (''gravity'', JStr ''1.0g''), (''hab_rank'', JStr []),
      (''magnetosphere'', JStr ''Average''), (''planet_length'', pl),
      (''temperature'', JStr ''Temperate''), (''type'', JStr ''Rock''),
      (''water'', JStr ''Safe''), (''biomes'', JStrs bio),
      (''traits'', JStrs [''Solar Storm Seasons'', ''Coralline Landmass'']),
      (''resources'', JStrs [''H2O'', ''Fe'']),
      (''domesticable'', JStrs doms), (''gatherable'', JStrs [])]"

definition example_normalized :: "int \<Rightarrow> int \<Rightarrow> Biome list \<Rightarrow> OrganicResource list \<Rightarrow> Body" where
  "example_normalized fa pl bio doms =
     \<lparr>system = ''Sol'', name = ''Earth'', atmosphere = ''std o2'', fauna = fa, flora = 12,
      gravity = Finite 1, hab_rank = 0, magnetosphere = ''average'', planet_length = pl,
      temperature = ''temperate'', body_type = JStr ''Rock'', water = ''safe'',
      biomes = bio, traits = [''Coralline Landmass'', ''Solar Storm Seasons''],
      resources = [''H2O'', ''Fe''], domesticable = doms, gatherable = []\<rparr>"

section \<open>create_db.py\<close>

text \<open>One entry of \<open>resources.json\<close>. The keys \<open>resource\<close>, \<open>type\<close> and \<open>value\<close> are
  \<open>resource_name\<close>, \<open>resource_type\<close> and \<open>resource_value\<close> here.\<close>

record Resource =
  resource_name :: string
  shortName :: string
  rarity :: json
  resource_type :: json
  mass :: json
  resource_value :: json
  valueToMass :: json

text \<open>A row of \<open>bodies\<close>, in the order of lines 223-236: name, system, type, gravity,
  temperature, atmosphere, magnetosphere, water, fauna, flora, hab_rank, planet_length.\<close>

type_synonym body_row =
  "string \<times> string \<times> json \<times> pyfloat \<times> string \<times> string \<times> string \<times> string \<times> int \<times> int \<times> int \<times> int"

type_synonym trait_row = "string \<times> string \<times> string"
type_synonym body_resource_row = "string \<times> string \<times> string"
type_synonym body_organic_row = "string \<times> string \<times> string \<times> string \<times> bool"
type_synonym biome_row = "string \<times> string \<times> string \<times> pyfloat"

text \<open>The database: the rows of each table, in insertion order.\<close>

record store =
  resources_tbl :: "Resource list"
  systems_tbl :: "(string \<times> nat) list"
  bodies_tbl :: "body_row list"
  traits_tbl :: "trait_row list"
  body_resources_tbl :: "body_resource_row list"
  body_organics_tbl :: "body_organic_row list"
  biomes_tbl :: "biome_row list"

definition empty_store :: store where
  "empty_store =
     \<lparr>resources_tbl = [], systems_tbl = [], bodies_tbl = [], traits_tbl = [],
      body_resources_tbl = [], body_organics_tbl = [], biomes_tbl = []\<rparr>"

text \<open>
  The schema \<open>sf.sql\<close> is not among the sources. It is a parameter here: for each table,
  the rows that an \<open>INSERT\<close> accepts into a given database. A row that is not accepted
  raises \<open>sqlite3.IntegrityError\<close> and leaves the database as it was.
\<close>

record schema =
  resources_ok :: "store \<Rightarrow> Resource \<Rightarrow> bool"
  systems_ok :: "store \<Rightarrow> string \<times> nat \<Rightarrow> bool"
  bodies_ok :: "store \<Rightarrow> body_row \<Rightarrow> bool"
  traits_ok :: "store \<Rightarrow> trait_row \<Rightarrow> bool"
  body_resources_ok :: "store \<Rightarrow> body_resource_row \<Rightarrow> bool"
  body_organics_ok :: "store \<Rightarrow> body_organic_row \<Rightarrow> bool"
  biomes_ok :: "store \<Rightarrow> biome_row \<Rightarrow> bool"

text \<open>
  Binding the values of a row to the statement, which comes before the statement runs.
  \<open>None\<close>, \<open>bool\<close>, \<open>float\<close> and \<open>str\<close> are bound; an \<open>int\<close> is bound when it fits
  64 bits and raises \<open>OverflowError\<close> otherwise; a list raises
  \<open>sqlite3.ProgrammingError\<close> (\<open>sqlite3.InterfaceError\<close> before Python 3.11). The
  values are bound in the order of the row, so the first that fails gives the exception.
  The columns that hold strings, floats, \<open>True\<close>, \<open>False\<close> or the count of a system
  (a Python list has fewer than \<open>2 ^ 63\<close> elements) are always bound.
\<close>

definition bind_int :: "int \<Rightarrow> error option" where
  "bind_int i = (if - (2 ^ 63) \<le> i \<and> i < 2 ^ 63 then None else Some OverflowError)"

definition bind_json :: "json \<Rightarrow> error option" where
  "bind_json v =
     (case v of JStrs xs \<Rightarrow> Some ProgrammingError | JInt i \<Rightarrow> bind_int i | _ \<Rightarrow> None)"

fun first_error :: "error option list \<Rightarrow> error option" where
  "first_error [] = None"
| "first_error (None # es) = first_error es"
| "first_error (Some e # es) = Some e"

definition bind_resource :: "Resource \<Rightarrow> error option" where
  "bind_resource r =
     first_error [bind_json (rarity r), bind_json (resource_type r), bind_json (mass r),
                  bind_json (resource_value r), bind_json (valueToMass r)]"

definition bind_body_row :: "body_row \<Rightarrow> error option" where
  "bind_body_row row =
     (case row of
        (nm, sys, ty, gr, tmp, atm, mag, wat, fa, fl, hr, pl) \<Rightarrow>
          first_error [bind_json ty, bind_int fa, bind_int fl, bind_int hr, bind_int pl])"

text \<open>\<open>cur.execute("INSERT INTO ... VALUES (...)", row)\<close> for each table.\<close>

definition insert_resource :: "schema \<Rightarrow> store \<Rightarrow> Resource \<Rightarrow> error + store" where
  "insert_resource sch st r =
     (case bind_resource r of
        Some e \<Rightarrow> Inl e
      | None \<Rightarrow>
          if resources_ok sch st r then Inr (st\<lparr>resources_tbl := resources_tbl st @ [r]\<rparr>)
          else Inl IntegrityError)"

definition insert_system :: "schema \<Rightarrow> store \<Rightarrow> string \<times> nat \<Rightarrow> error + store" where
  "insert_system sch st r =
     (if systems_ok sch st r then Inr (st\<lparr>systems_tbl := systems_tbl st @ [r]\<rparr>)
      else Inl IntegrityError)"

definition insert_body_row :: "schema \<Rightarrow> store \<Rightarrow> body_row \<Rightarrow> error + store" where
  "insert_body_row sch st r =
     (case bind_body_row r of
        Some e \<Rightarrow> Inl e
      | None \<Rightarrow>
          if bodies_ok sch st r then Inr (st\<lparr>bodies_tbl := bodies_tbl st @ [r]\<rparr>)
          else Inl IntegrityError)"

definition insert_trait :: "schema \<Rightarrow> store \<Rightarrow> trait_row \<Rightarrow> error + store" where
  "insert_trait sch st r =
     (if traits_ok sch st r then Inr (st\<lparr>traits_tbl := traits_tbl st @ [r]\<rparr>)
      else Inl IntegrityError)"

definition insert_body_resource :: "schema \<Rightarrow> store \<Rightarrow> body_resource_row \<Rightarrow> error + store" where
  "insert_body_resource sch st r =
     (if body_resources_ok sch st r
      then Inr (st\<lparr>body_resources_tbl := body_resources_tbl st @ [r]\<rparr>)
      else Inl IntegrityError)"

definition insert_body_organic :: "schema \<Rightarrow> store \<Rightarrow> body_organic_row \<Rightarrow> error + store" where
  "insert_body_organic sch st r =
     (if body_organics_ok sch st r
      then Inr (st\<lparr>body_organics_tbl := body_organics_tbl st @ [r]\<rparr>)
      else Inl IntegrityError)"

definition insert_biome :: "schema \<Rightarrow> store \<Rightarrow> biome_row \<Rightarrow> error + store" where
  "insert_biome sch st r =
     (if biomes_ok sch st r then Inr (st\<lparr>biomes_tbl := biomes_tbl st @ [r]\<rparr>)
      else Inl IntegrityError)"

text \<open>A loop of inserts: the first exception ends it.\<close>

fun insert_all :: "(store \<Rightarrow> 'r \<Rightarrow> error + store) \<Rightarrow> 'r list \<Rightarrow> store \<Rightarrow> error + store" where
  "insert_all ins [] st = Inr st"
| "insert_all ins (r # rs) st =
     (case ins st r of Inl e \<Rightarrow> Inl e | Inr st' \<Rightarrow> insert_all ins rs st')"

text \<open>
  In the functions below a database is the committed one. The rows executed since the
  last \<open>con.commit()\<close> are held in a working copy, which \<open>con.commit()\<close> makes the
  committed database; an exception ends the process, and the committed database stays as
  the last commit left it.
\<close>

text \<open>Lines 101-104: an existing \<open>sf.db\<close> is removed, and \<open>sqlite3.connect\<close> opens the
  file if there is one and a new, empty database otherwise. Lines 125-131: the schema
  creates the seven tables.\<close>

definition remove_if_file :: "store option \<Rightarrow> store option" where
  "remove_if_file db_file = (case db_file of Some _ \<Rightarrow> None | None \<Rightarrow> None)"

definition sqlite3_connect :: "store option \<Rightarrow> store" where
  "sqlite3_connect db_file = (case db_file of Some st \<Rightarrow> st | None \<Rightarrow> empty_store)"

definition connect_to_db :: "store option \<Rightarrow> store" where
  "connect_to_db db_file = sqlite3_connect (remove_if_file db_file)"

text \<open>Lines 159-179: each resource is inserted and the two entries of \<open>shortname_map\<close>
  are assigned, the short name first; one commit at the end.\<close>

definition add_names :: "(string \<rightharpoonup> string) \<Rightarrow> Resource \<Rightarrow> (string \<rightharpoonup> string)" where
  "add_names shortname_map r =
     shortname_map(lower (shortName r) \<mapsto> resource_name r,
                   lower (resource_name r) \<mapsto> shortName r)"

fun resources_loop ::
  "schema \<Rightarrow> Resource list \<Rightarrow> store \<Rightarrow> (string \<rightharpoonup> string) \<Rightarrow> error + store \<times> (string \<rightharpoonup> string)"
where
  "resources_loop sch [] st shortname_map = Inr (st, shortname_map)"
| "resources_loop sch (r # rs) st shortname_map =
     (case insert_resource sch st r of
        Inl e \<Rightarrow> Inl e
      | Inr st' \<Rightarrow>
          resources_loop sch rs st' (add_names shortname_map r))"

definition insert_resources ::
  "schema \<Rightarrow> Resource list \<Rightarrow> store \<Rightarrow> error + store \<times> (string \<rightharpoonup> string)" where
  "insert_resources sch data st = resources_loop sch data st Map.empty"

text \<open>Line 255: \<open>shortname_map[resource.lower()]\<close>.\<close>

definition resolve :: "(string \<rightharpoonup> string) \<Rightarrow> string \<Rightarrow> error + string" where
  "resolve shortname_map r =
     (case shortname_map (lower r) of None \<Rightarrow> Inl (KeyError (lower r)) | Some v \<Rightarrow> Inr v)"

text \<open>Line 218: \<open>Counter\<close> of the system names; its items come in the order of first
  occurrence.\<close>

definition first_occurrences :: "'a list \<Rightarrow> 'a list" where
  "first_occurrences xs = rev (remdups (rev xs))"

definition counts :: "Body list \<Rightarrow> (string \<times> nat) list" where
  "counts galaxy =
     map (\<lambda>s. (s, count_list (map system galaxy) s)) (first_occurrences (map system galaxy))"

definition body_row_of :: "Body \<Rightarrow> body_row" where
  "body_row_of body =
     (name body, system body, body_type body, gravity body, temperature body,
      atmosphere body, magnetosphere body, water body, fauna body, flora body,
      hab_rank body, planet_length body)"

definition trait_rows :: "Body \<Rightarrow> trait_row list" where
  "trait_rows body = map (\<lambda>trait. (system body, name body, trait)) (traits body)"

definition organic_rows :: "Body \<Rightarrow> body_organic_row list" where
  "organic_rows body =
     map (\<lambda>org. (system body, name body, organic_name org, resource org, True))
       (domesticable body) @
     map (\<lambda>org. (system body, name body, organic_name org, resource org, False))
       (gatherable body)"

definition biome_rows :: "Body \<Rightarrow> biome_row list" where
  "biome_rows body =
     map (\<lambda>biome. (system body, name body, biome_name biome, coverage biome)) (biomes body)"

text \<open>Lines 252-256: the name is looked up before the row is inserted.\<close>

fun insert_body_resources ::
  "schema \<Rightarrow> (string \<rightharpoonup> string) \<Rightarrow> Body \<Rightarrow> string list \<Rightarrow> store \<Rightarrow> error + store" where
  "insert_body_resources sch shortname_map body [] st = Inr st"
| "insert_body_resources sch shortname_map body (r # rs) st =
     (case resolve shortname_map r of
        Inl e \<Rightarrow> Inl e
      | Inr full \<Rightarrow>
          (case insert_body_resource sch st (system body, name body, full) of
             Inl e \<Rightarrow> Inl e
           | Inr st' \<Rightarrow> insert_body_resources sch shortname_map body rs st'))"

text \<open>Lines 237-244: the row of the body; an \<open>IntegrityError\<close> is caught and a line is
  printed (the row stands for the line); any other exception is not caught.\<close>

definition try_body_row ::
  "schema \<Rightarrow> store \<Rightarrow> body_row \<Rightarrow> error + store \<times> body_row list" where
  "try_body_row sch st row =
     (case insert_body_row sch st row of
        Inr st' \<Rightarrow> Inr (st', [])
      | Inl e \<Rightarrow> if e = IntegrityError then Inr (st, [row]) else Inl e)"

text \<open>Lines 246-274: the child rows of one body.\<close>

definition insert_children ::
  "schema \<Rightarrow> (string \<rightharpoonup> string) \<Rightarrow> Body \<Rightarrow> store \<Rightarrow> error + store" where
  "insert_children sch shortname_map body st =
     err_bind (insert_all (insert_trait sch) (trait_rows body) st) (\<lambda>st1.
     err_bind (insert_body_resources sch shortname_map body (resources body) st1) (\<lambda>st2.
     err_bind (insert_all (insert_body_organic sch) (organic_rows body) st2) (\<lambda>st3.
     insert_all (insert_biome sch) (biome_rows body) st3)))"

text \<open>Lines 222-275, one turn of the loop: from the committed database to the printed
  lines and either the database committed at line 275 or the exception.\<close>

definition insert_body ::
  "schema \<Rightarrow> (string \<rightharpoonup> string) \<Rightarrow> store \<Rightarrow> Body \<Rightarrow> body_row list \<times> (error + store)" where
  "insert_body sch shortname_map st body =
     (case try_body_row sch st (body_row_of body) of
        Inl e \<Rightarrow> ([], Inl e)
      | Inr (st', printed) \<Rightarrow> (printed, insert_children sch shortname_map body st'))"

text \<open>The loop over the galaxy: the exception if any, the committed database and the
  printed lines.\<close>

fun insert_bodies ::
  "schema \<Rightarrow> (string \<rightharpoonup> string) \<Rightarrow> store \<Rightarrow> Body list \<Rightarrow> error option \<times> store \<times> body_row list"
where
  "insert_bodies sch shortname_map st [] = (None, st, [])"
| "insert_bodies sch shortname_map st (body # rest) =
     (case insert_body sch shortname_map st body of
        (printed, Inl e) \<Rightarrow> (Some e, st, printed)
      | (printed, Inr st') \<Rightarrow>
          (case insert_bodies sch shortname_map st' rest of
             (r, st'', printed') \<Rightarrow> (r, st'', printed @ printed')))"

text \<open>Lines 212-275.\<close>

definition insert_galaxy ::
  "schema \<Rightarrow> (string \<rightharpoonup> string) \<Rightarrow> store \<Rightarrow> Body list \<Rightarrow> error option \<times> store \<times> body_row list"
where
  "insert_galaxy sch shortname_map st galaxy =
     (case insert_all (insert_system sch) (counts galaxy) st of
        Inl e \<Rightarrow> (Some e, st, [])
      | Inr st' \<Rightarrow> insert_bodies sch shortname_map st' galaxy)"

text \<open>What a run leaves: the exit status (1 after an uncaught exception), the database
  file and the printed lines.\<close>

record finished =
  exit_status :: nat
  sf_db :: store
  printed_rows :: "body_row list"

text \<open>\<open>main\<close>, lines 18-22, on a data directory that holds the schema, the catalog, the
  galaxy and maybe an earlier \<open>sf.db\<close>.\<close>

definition create_db :: "schema \<Rightarrow> store option \<Rightarrow> Resource list \<Rightarrow> Body list \<Rightarrow> finished" where
  "create_db sch db_file data galaxy =
     (let con = connect_to_db db_file
      in case insert_resources sch data con of
           Inl e \<Rightarrow> \<lparr>exit_status = 1, sf_db = con, printed_rows = []\<rparr>
         | Inr (st, shortname_map) \<Rightarrow>
             (case insert_galaxy sch shortname_map st galaxy of
                (Some e, st', printed) \<Rightarrow>
                  \<lparr>exit_status = 1, sf_db = st', printed_rows = printed\<rparr>
              | (None, st', printed) \<Rightarrow>
                  \<lparr>exit_status = 0, sf_db = st', printed_rows = printed\<rparr>))"

subsection \<open>What a run of the loader leaves\<close>

text \<open>The map that lines 175-176 build from a catalog.\<close>

definition shortname_map_of :: "Resource list \<Rightarrow> (string \<rightharpoonup> string)" where
  "shortname_map_of data =
     foldl add_names Map.empty data"

text \<open>The rows of \<open>body_resources\<close> for the references of a body that the map resolves.\<close>

definition resource_rows :: "(string \<rightharpoonup> string) \<Rightarrow> Body \<Rightarrow> body_resource_row list" where
  "resource_rows shortname_map body =
     List.map_filter
       (\<lambda>r. map_option (\<lambda>full. (system body, name body, full)) (shortname_map (lower r)))
       (resources body)"

text \<open>The key of a body and of a row of \<open>bodies\<close>.\<close>

definition body_key :: "Body \<Rightarrow> string \<times> string" where
  "body_key body = (system body, name body)"

definition row_key :: "body_row \<Rightarrow> string \<times> string" where
  "row_key row = (fst (snd row), fst row)"

text \<open>Modelled from the spec: the uniqueness constraint of the table \<open>bodies\<close> in the
  missing \<open>sf.sql\<close>; the specification keys the body row by (system, name).\<close>

definition unique_body_key :: "store \<Rightarrow> body_row \<Rightarrow> bool" where
  "unique_body_key st row = (row_key row \<notin> set (map row_key (bodies_tbl st)))"




text \<open>Every row of the catalog and of the galaxy can be bound.\<close>

definition all_bound :: "Resource list \<Rightarrow> Body list \<Rightarrow> bool" where
  "all_bound data galaxy =
     (list_all (\<lambda>r. bind_resource r = None) data \<and>
      list_all (\<lambda>body. bind_body_row (body_row_of body) = None) galaxy)"


text \<open>A schema whose other tables accept every row.\<close>

definition accept :: "store \<Rightarrow> 'r \<Rightarrow> bool" where
  "accept st r = True"

definition only_bodies_constrained :: "schema \<Rightarrow> bool" where
  "only_bodies_constrained sch =
     (resources_ok sch = accept \<and> systems_ok sch = accept \<and> traits_ok sch = accept \<and>
      body_resources_ok sch = accept \<and> body_organics_ok sch = accept \<and>
      biomes_ok sch = accept)"


text \<open>The database after a body whose child rows were all inserted, and after a list of
  such bodies.\<close>

definition with_children :: "(string \<rightharpoonup> string) \<Rightarrow> Body \<Rightarrow> store \<Rightarrow> store" where
  "with_children shortname_map body st =
     st\<lparr>traits_tbl := traits_tbl st @ trait_rows body,
        body_resources_tbl := body_resources_tbl st @ resource_rows shortname_map body,
        body_organics_tbl := body_organics_tbl st @ organic_rows body,
        biomes_tbl := biomes_tbl st @ biome_rows body\<rparr>"

definition with_body_row :: "schema \<Rightarrow> Body \<Rightarrow> store \<Rightarrow> store" where
  "with_body_row sch body st =
     (if bodies_ok sch st (body_row_of body)
      then st\<lparr>bodies_tbl := bodies_tbl st @ [body_row_of body]\<rparr> else st)"

fun loaded :: "schema \<Rightarrow> (string \<rightharpoonup> string) \<Rightarrow> store \<Rightarrow> Body list \<Rightarrow> store" where
  "loaded sch shortname_map st [] = st"
| "loaded sch shortname_map st (body # rest) =
     loaded sch shortname_map (with_children shortname_map body (with_body_row sch body st)) rest"

text \<open>The database before the loop over the bodies.\<close>

definition before_bodies :: "Resource list \<Rightarrow> Body list \<Rightarrow> store" where
  "before_bodies data galaxy = empty_store\<lparr>resources_tbl := data, systems_tbl := counts galaxy\<rparr>"

subsection \<open>Example catalog and bodies\<close>

text \<open>A schema that constrains the body key only, a catalog entry and a body of the
  system Sol with given name, traits and resource references.\<close>

definition keyed_schema :: schema where
  "keyed_schema =
     \<lparr>resources_ok = accept, systems_ok = accept, bodies_ok = unique_body_key,
      traits_ok = accept, body_resources_ok = accept, body_organics_ok = accept,
      biomes_ok = accept\<rparr>"

definition iron :: Resource where
  "iron = \<lparr>resource_name = ''Iron'', shortName = ''Fe'', rarity = JStr ''Common'',
           resource_type = JStr ''Inorganic'', mass = JInt 1, resource_value = JInt 8,
           valueToMass = JInt 8\<rparr>"

definition sol_body :: "string \<Rightarrow> string list \<Rightarrow> string list \<Rightarrow> Body" where
  "sol_body nm trs res = new_body\<lparr>system := ''Sol'', name := nm, traits := trs, resources := res\<rparr>"

section \<open>Properties of restructure.py\<close>

lemma then_do_Inr:
  "then_do r f = (out, Inr y) \<longleftrightarrow>
     (\<exists>o1 x o2. r = (o1, Inr x) \<and> f x = (o2, Inr y) \<and> out = o1 @ o2)"
  by (auto simp: then_do_def split: prod.splits sum.splits)

lemma then_do_pure [simp]: "then_do (pure x) f = f x"
  by (simp add: then_do_def pure_def split: prod.splits)

lemma split_on_nonempty [simp]: "split_on c s \<noteq> []"
  by (induction s) (auto split: list.splits)

lemma split_on_no_sep: "c \<notin> set s \<Longrightarrow> split_on c s = [s]"
  by (induction s) auto

lemma split_on_append_sep: "split_on c (p @ c # z) = split_on c p @ split_on c z"
  by (induction p) (auto split: list.splits)

lemma hd_split_on: "hd (split_on c s) = takeWhile (\<lambda>x. x \<noteq> c) s"
  by (induction s) (auto split: list.splits)

lemma last_split_on: "c \<notin> set z \<Longrightarrow> last (split_on c (p @ c # z)) = z"
  by (simp add: split_on_append_sep split_on_no_sep)

lemma join_Cons: "ps \<noteq> [] \<Longrightarrow> join sep (p # ps) = p @ sep @ join sep ps"
  by (cases ps) auto

lemma join_Cons_hd: "join sep ((x # p) # ps) = x # join sep (p # ps)"
  by (cases ps) auto

lemma join_split_on: "join [c] (split_on c s) = s"
proof (induction s)
  case Nil
  show ?case by simp
next
  case (Cons x xs)
  obtain p ps where sp: "split_on c xs = p # ps"
    by (cases "split_on c xs") auto
  show ?case
  proof (cases "x = c")
    case True
    with Cons show ?thesis by (simp add: join_Cons)
  next
    case False
    with Cons sp show ?thesis by (simp add: join_Cons_hd)
  qed
qed

lemma butlast_split_on: "c \<notin> set t \<Longrightarrow> butlast (split_on c (n @ c # t)) = split_on c n"
  by (simp add: split_on_append_sep split_on_no_sep butlast_append)


lemma biome_loop_eq:
  "biome_loop sys bn strs b =
     (map (\<lambda>s. InvalidBiome s sys bn) (filter (\<lambda>s. parse_biome s = None) strs),
      Inr (b\<lparr>biomes := biomes b @ List.map_filter parse_biome strs\<rparr>))"
proof (induction strs arbitrary: b)
  case Nil
  show ?case by (simp add: pure_def List.map_filter_simps)
next
  case (Cons s strs)
  show ?case
    by (cases "parse_biome s")
       (simp_all add: Cons then_do_def warn_def List.map_filter_simps)
qed

lemma py_int_errors: "py_int v = Inl e \<Longrightarrow> e = ValueError \<or> e = TypeError \<or> e = OverflowError"
  by (auto simp: py_int_def split: json.splits option.splits pyfloat.splits)

lemma int_field_Inr:
  "int_field d k w = (out, Inr i) \<longleftrightarrow>
     (\<exists>v. getitem d k = Inr v \<and> \<not> int_fatal v \<and> i = int_value v \<and>
          out = int_warning w v)"
proof (cases "getitem d k")
  case (Inl e)
  then show ?thesis by (simp add: int_field_def raise_def)
next
  case got: (Inr v)
  show ?thesis
  proof (cases "py_int v")
    case (Inl e)
    then have "e = ValueError \<or> e = TypeError \<or> e = OverflowError"
      by (rule py_int_errors)
    with Inl got show ?thesis
      by (auto simp: int_field_def int_fatal_def int_value_def int_warning_def raise_def warn_def)
  next
    case (Inr n)
    with got show ?thesis
      by (auto simp: int_field_def int_fatal_def int_value_def int_warning_def pure_def)
  qed
qed

lemma pure_eq: "pure x = (out, Inr y) \<longleftrightarrow> out = [] \<and> y = x"
  by (auto simp: pure_def)

lemma raise_neq [simp]: "raise e \<noteq> (out, Inr y)"
  by (simp add: raise_def)

lemma set_atmosphere_Inr:
  "set_atmosphere d b = (out, Inr b') \<longleftrightarrow>
     (\<exists>s. lower_field d ''atmosphere'' = Inr s \<and> out = [] \<and> b' = b\<lparr>atmosphere := s\<rparr>)"
  by (auto simp: set_atmosphere_def pure_def raise_def split: sum.splits)

lemma set_magnetosphere_Inr:
  "set_magnetosphere d b = (out, Inr b') \<longleftrightarrow>
     (\<exists>s. lower_field d ''magnetosphere'' = Inr s \<and> out = [] \<and> b' = b\<lparr>magnetosphere := s\<rparr>)"
  by (auto simp: set_magnetosphere_def pure_def raise_def split: sum.splits)

lemma set_temperature_Inr:
  "set_temperature d b = (out, Inr b') \<longleftrightarrow>
     (\<exists>s. lower_field d ''temperature'' = Inr s \<and> out = [] \<and> b' = b\<lparr>temperature := s\<rparr>)"
  by (auto simp: set_temperature_def pure_def raise_def split: sum.splits)

lemma set_water_Inr:
  "set_water d b = (out, Inr b') \<longleftrightarrow>
     (\<exists>s. lower_field d ''water'' = Inr s \<and> out = [] \<and> b' = b\<lparr>water := s\<rparr>)"
  by (auto simp: set_water_def pure_def raise_def split: sum.splits)

lemma set_type_Inr:
  "set_type d b = (out, Inr b') \<longleftrightarrow>
     (\<exists>v. getitem d ''type'' = Inr v \<and> out = [] \<and> b' = b\<lparr>body_type := v\<rparr>)"
  by (auto simp: set_type_def pure_def raise_def split: sum.splits)

lemma set_gravity_Inr:
  "set_gravity d b = (out, Inr b') \<longleftrightarrow>
     (\<exists>g. err_bind (getitem d ''gravity'') parse_gravity = Inr g \<and> out = [] \<and>
          b' = b\<lparr>gravity := g\<rparr>)"
  by (auto simp: set_gravity_def pure_def raise_def split: sum.splits)

lemma set_fauna_Inr:
  "set_fauna sys bn d b = (out, Inr b') \<longleftrightarrow>
     (\<exists>v. getitem d ''fauna'' = Inr v \<and> \<not> int_fatal v \<and>
          out = int_warning (\<lambda>v. InvalidFauna v sys bn) v \<and>
          b' = b\<lparr>fauna := int_value v\<rparr>)"
  by (auto simp: set_fauna_def then_do_Inr int_field_Inr pure_eq)

lemma set_flora_Inr:
  "set_flora sys bn d b = (out, Inr b') \<longleftrightarrow>
     (\<exists>v. getitem d ''flora'' = Inr v \<and> \<not> int_fatal v \<and>
          out = int_warning (\<lambda>v. InvalidFlora v sys bn) v \<and>
          b' = b\<lparr>flora := int_value v\<rparr>)"
  by (auto simp: set_flora_def then_do_Inr int_field_Inr pure_eq)

lemma set_hab_rank_Inr:
  "set_hab_rank sys bn d b = (out, Inr b') \<longleftrightarrow>
     (\<exists>v. getitem d ''hab_rank'' = Inr v \<and> \<not> int_fatal v \<and>
          out = int_warning (\<lambda>v. InvalidHabRank v sys bn) v \<and>
          b' = b\<lparr>hab_rank := int_value v\<rparr>)"
  by (auto simp: set_hab_rank_def then_do_Inr int_field_Inr pure_eq)

lemma set_planet_length_Inr:
  "set_planet_length sys bn d b = (out, Inr b') \<longleftrightarrow>
     (\<exists>pl. getitem d ''planet_length'' = Inr pl \<and>
          out = planet_length_warning sys bn pl \<and>
          b' = b\<lparr>planet_length := planet_length_value pl\<rparr>)"
  by (auto simp: set_planet_length_def planet_length_value_def planet_length_warning_def
                 pure_def raise_def warn_def
           split: sum.splits option.splits)

lemma set_biomes_Inr:
  "set_biomes sys bn d b = (out, Inr b') \<longleftrightarrow>
     (\<exists>strs. iter_field d ''biomes'' = Inr strs \<and>
          out = biome_warnings sys bn strs \<and>
          b' = b\<lparr>biomes := sort_key biome_name (biomes b @ List.map_filter parse_biome strs)\<rparr>)"
  by (auto simp: set_biomes_def then_do_Inr biome_loop_eq biome_warnings_def pure_eq raise_def
           split: sum.splits)

lemma set_traits_Inr:
  "set_traits d b = (out, Inr b') \<longleftrightarrow>
     (\<exists>xs. iter_field d ''traits'' = Inr xs \<and> out = [] \<and> b' = b\<lparr>traits := sort (traits b @ xs)\<rparr>)"
  by (auto simp: set_traits_def pure_def raise_def split: sum.splits)

lemma set_resources_Inr:
  "set_resources d b = (out, Inr b') \<longleftrightarrow>
     (\<exists>xs. iter_field d ''resources'' = Inr xs \<and> out = [] \<and>
          b' = b\<lparr>resources := resources b @ xs, traits := sort (traits b)\<rparr>)"
  by (auto simp: set_resources_def pure_def raise_def split: sum.splits)

lemma set_domesticable_Inr:
  "set_domesticable d b = (out, Inr b') \<longleftrightarrow>
     (\<exists>xs. iter_field d ''domesticable'' = Inr xs \<and> out = [] \<and>
          b' = b\<lparr>domesticable := sort_key organic_name (domesticable b @ map parse_organic xs)\<rparr>)"
  by (auto simp: set_domesticable_def pure_def raise_def split: sum.splits)

lemma set_gatherable_Inr:
  "set_gatherable d b = (out, Inr b') \<longleftrightarrow>
     (\<exists>xs. iter_field d ''gatherable'' = Inr xs \<and> out = [] \<and>
          b' = b\<lparr>gatherable := sort_key organic_name (gatherable b @ map parse_organic xs)\<rparr>)"
  by (auto simp: set_gatherable_def pure_def raise_def split: sum.splits)

lemmas step_Inr =
  set_atmosphere_Inr set_fauna_Inr set_flora_Inr set_gravity_Inr set_hab_rank_Inr
  set_magnetosphere_Inr set_planet_length_Inr set_temperature_Inr set_type_Inr
  set_water_Inr set_biomes_Inr set_traits_Inr set_resources_Inr set_domesticable_Inr
  set_gatherable_Inr

lemma normalize_body_Inr:
  "normalize_body sys bn d = (out, Inr b) \<longleftrightarrow>
   (\<exists>atm fa fl g hr mag pl tmp ty wat bio tr res dom gat.
     lower_field d ''atmosphere'' = Inr atm \<and>
     getitem d ''fauna'' = Inr fa \<and> \<not> int_fatal fa \<and>
     getitem d ''flora'' = Inr fl \<and> \<not> int_fatal fl \<and>
     err_bind (getitem d ''gravity'') parse_gravity = Inr g \<and>
     getitem d ''hab_rank'' = Inr hr \<and> \<not> int_fatal hr \<and>
     lower_field d ''magnetosphere'' = Inr mag \<and>
     getitem d ''planet_length'' = Inr pl \<and>
     lower_field d ''temperature'' = Inr tmp \<and>
     getitem d ''type'' = Inr ty \<and>
     lower_field d ''water'' = Inr wat \<and>
     iter_field d ''biomes'' = Inr bio \<and>
     iter_field d ''traits'' = Inr tr \<and>
     iter_field d ''resources'' = Inr res \<and>
     iter_field d ''domesticable'' = Inr dom \<and>
     iter_field d ''gatherable'' = Inr gat \<and>
     b = \<lparr>system = sys, name = bn, atmosphere = atm, fauna = int_value fa,
          flora = int_value fl, gravity = g, hab_rank = int_value hr, magnetosphere = mag,
          planet_length = planet_length_value pl,
          temperature = tmp, body_type = ty, water = wat,
          biomes = sort_key biome_name (List.map_filter parse_biome bio),
          traits = sort (sort tr), resources = res,
          domesticable = sort_key organic_name (map parse_organic dom),
          gatherable = sort_key organic_name (map parse_organic gat)\<rparr> \<and>
     out = int_warning (\<lambda>v. InvalidFauna v sys bn) fa @
           int_warning (\<lambda>v. InvalidFlora v sys bn) fl @
           int_warning (\<lambda>v. InvalidHabRank v sys bn) hr @
           planet_length_warning sys bn pl @ biome_warnings sys bn bio)"
  (is "?L \<longleftrightarrow> ?R")
proof
  assume ?L
  then show ?R
    unfolding normalize_body_def run_steps.simps then_do_Inr pure_eq step_Inr
    by (clarsimp simp: new_body_def)
next
  assume ?R
  then show ?L
    unfolding normalize_body_def run_steps.simps then_do_Inr pure_eq step_Inr
    by (clarsimp simp: new_body_def)
qed







lemma int_value_JStr: "int_value (JStr s) = (case int_of_str s of Some i \<Rightarrow> i | None \<Rightarrow> 0)"
  by (simp add: int_value_def py_int_def split: option.splits)

lemma int_warning_JStr:
  "int_warning w (JStr s) = (if int_of_str s = None then [w (JStr s)] else [])"
  by (simp add: int_warning_def py_int_def split: option.splits)

lemma not_int_fatal_JStr: "\<not> int_fatal (JStr s)"
  by (simp add: int_fatal_def py_int_def split: option.splits)



lemma example_fields:
  "lower_field (example_body fa pl bio doms) ''atmosphere'' = Inr ''std o2''"
  "getitem (example_body fa pl bio doms) ''fauna'' = Inr fa"
  "getitem (example_body fa pl bio doms) ''flora'' = Inr (JStr ''12'')"
  "err_bind (getitem (example_body fa pl bio doms) ''gravity'') parse_gravity = Inr (Finite 1)"
  "getitem (example_body fa pl bio doms) ''hab_rank'' = Inr (JStr [])"
  "lower_field (example_body fa pl bio doms) ''magnetosphere'' = Inr ''average''"
  "getitem (example_body fa pl bio doms) ''planet_length'' = Inr pl"
  "lower_field (example_body fa pl bio doms) ''temperature'' = Inr ''temperate''"
  "getitem (example_body fa pl bio doms) ''type'' = Inr (JStr ''Rock'')"
  "lower_field (example_body fa pl bio doms) ''water'' = Inr ''safe''"
  "iter_field (example_body fa pl bio doms) ''biomes'' = Inr bio"
  "iter_field (example_body fa pl bio doms) ''traits'' =
     Inr [''Solar Storm Seasons'', ''Coralline Landmass'']"
  "iter_field (example_body fa pl bio doms) ''resources'' = Inr [''H2O'', ''Fe'']"
  "iter_field (example_body fa pl bio doms) ''domesticable'' = Inr doms"
  "iter_field (example_body fa pl bio doms) ''gatherable'' = Inr []"
proof -
  have l: "lower ''Std O2'' = ''std o2''" "lower ''Average'' = ''average''"
    "lower ''Temperate'' = ''temperate''" "lower ''Safe'' = ''safe''"
    by code_simp+
  have g: "float_of_str (strip (remove_char (CHR ''g'') ''1.0g'')) = Some (Finite 1)"
    by code_simp
  show "lower_field (example_body fa pl bio doms) ''atmosphere'' = Inr ''std o2''"
    "getitem (example_body fa pl bio doms) ''fauna'' = Inr fa"
    "getitem (example_body fa pl bio doms) ''flora'' = Inr (JStr ''12'')"
    "err_bind (getitem (example_body fa pl bio doms) ''gravity'') parse_gravity = Inr (Finite 1)"
    "getitem (example_body fa pl bio doms) ''hab_rank'' = Inr (JStr [])"
    "lower_field (example_body fa pl bio doms) ''magnetosphere'' = Inr ''average''"
    "getitem (example_body fa pl bio doms) ''planet_length'' = Inr pl"
    "lower_field (example_body fa pl bio doms) ''temperature'' = Inr ''temperate''"
    "getitem (example_body fa pl bio doms) ''type'' = Inr (JStr ''Rock'')"
    "lower_field (example_body fa pl bio doms) ''water'' = Inr ''safe''"
    "iter_field (example_body fa pl bio doms) ''biomes'' = Inr bio"
    "iter_field (example_body fa pl bio doms) ''traits'' =
       Inr [''Solar Storm Seasons'', ''Coralline Landmass'']"
    "iter_field (example_body fa pl bio doms) ''resources'' = Inr [''H2O'', ''Fe'']"
    "iter_field (example_body fa pl bio doms) ''domesticable'' = Inr doms"
    "iter_field (example_body fa pl bio doms) ''gatherable'' = Inr []"
    by (simp_all add: example_body_def getitem_def lower_field_def iter_field_def err_bind_def
          str_lower_def py_iter_def parse_gravity_def l g)
qed


lemma example_traits:
  "sort (sort [''Solar Storm Seasons'', ''Coralline Landmass'']) =
     [''Coralline Landmass'', ''Solar Storm Seasons'']"
  by simp

lemma example_ints:
  "int_value (JStr ''12'') = 12" "int_value (JStr []) = 0"
  "int_warning w (JStr ''12'') = []" "int_warning w (JStr []) = [w (JStr [])]"
proof -
  have "int_of_str ''12'' = Some 12" "int_of_str [] = None" by code_simp+
  then show "int_value (JStr ''12'') = 12" "int_value (JStr []) = 0"
    "int_warning w (JStr ''12'') = []" "int_warning w (JStr []) = [w (JStr [])]"
    by (simp_all add: int_value_JStr int_warning_JStr)
qed

lemma normalize_example:
  assumes "\<not> int_fatal fa"
  shows "normalize_body ''Sol'' ''Earth'' (example_body fa pl bio doms) =
     (int_warning (\<lambda>v. InvalidFauna v ''Sol'' ''Earth'') fa @
      [InvalidHabRank (JStr []) ''Sol'' ''Earth''] @
      planet_length_warning ''Sol'' ''Earth'' pl @ biome_warnings ''Sol'' ''Earth'' bio,
      Inr (example_normalized (int_value fa) (planet_length_value pl)
             (sort_key biome_name (List.map_filter parse_biome bio))
             (sort_key organic_name (map parse_organic doms))))"
  unfolding normalize_body_Inr example_normalized_def
  using assms
  by (simp add: example_fields example_ints not_int_fatal_JStr example_traits)


lemma parse_biome_plain:
  "CHR ''%'' \<notin> set s \<Longrightarrow> parse_biome s = Some \<lparr>biome_name = s, coverage = Finite 0\<rparr>"
  by (simp add: parse_biome_def)

lemma parse_biome_percent:
  assumes "CHR ''%'' \<in> set (n @ '' '' @ t)" and "CHR '' '' \<notin> set t"
  shows "parse_biome (n @ '' '' @ t) =
     map_option (\<lambda>f. \<lparr>biome_name = n, coverage = div100 f\<rparr>)
       (float_of_str (remove_char (CHR ''%'') t))"
proof -
  have "split_on (CHR '' '') (n @ '' '' @ t) = split_on (CHR '' '') n @ [t]"
    using assms(2) by (simp add: split_on_append_sep split_on_no_sep)
  moreover have "parse_biome (n @ '' '' @ t) =
     (let parts = split_on (CHR '' '') (n @ '' '' @ t)
      in case float_of_str (remove_char (CHR ''%'') (last parts)) of
           None \<Rightarrow> None
         | Some f \<Rightarrow> Some \<lparr>biome_name = join '' '' (butlast parts), coverage = div100 f\<rparr>)"
    using assms(1) unfolding parse_biome_def by (simp only: if_True)
  ultimately show ?thesis
    by (simp add: join_split_on split: option.splits)
qed

lemma parse_biome_no_blank:
  assumes "CHR ''%'' \<in> set t" and "CHR '' '' \<notin> set t"
  shows "parse_biome t =
     map_option (\<lambda>f. \<lparr>biome_name = [], coverage = div100 f\<rparr>)
       (float_of_str (remove_char (CHR ''%'') t))"
  using assms by (simp add: parse_biome_def split_on_no_sep split: option.splits)


lemma in_unit_interval_div100:
  "0 \<le> q \<Longrightarrow> q \<le> 100 \<Longrightarrow> in_unit_interval (div100 (Finite q))"
  by (simp add: in_unit_interval_def div100_def)

lemma set_map_filter_iff: "y \<in> set (List.map_filter f xs) \<longleftrightarrow> (\<exists>x\<in>set xs. f x = Some y)"
  by (induction xs) (auto split: option.splits)

lemma parse_biome_Some:
  assumes "parse_biome s = Some bi"
  shows "if CHR ''%'' \<in> set s
         then (\<exists>f. float_of_str (remove_char (CHR ''%'') (last (split_on (CHR '' '') s))) = Some f \<and>
                   coverage bi = div100 f)
         else coverage bi = Finite 0"
  using assms by (auto simp: parse_biome_def Let_def split: if_splits option.splits)


lemma parse_organic_name:
  "CHR ''('' \<notin> set n \<Longrightarrow> organic_name (parse_organic (n @ ''('' @ r)) = strip n"
  by (simp add: parse_organic_def Let_def hd_split_on takeWhile_append takeWhile_eq_all_conv)

lemma parse_organic_resource:
  "CHR ''('' \<notin> set z \<Longrightarrow>
     resource (parse_organic (p @ ''('' @ z)) = strip (remove_char (CHR '')'') z)"
  by (simp add: parse_organic_def Let_def last_split_on)

lemma parse_organic_no_paren:
  "CHR ''('' \<notin> set s \<Longrightarrow>
     parse_organic s = \<lparr>organic_name = strip s, resource = strip (remove_char (CHR '')'') s)\<rparr>"
  by (simp add: parse_organic_def Let_def split_on_no_sep)

lemma parse_organic_well_formed:
  assumes "CHR ''('' \<notin> set n" and "CHR ''('' \<notin> set r" and "CHR '')'' \<notin> set r"
  shows "parse_organic (n @ ''('' @ r @ '')'') = \<lparr>organic_name = strip n, resource = strip r\<rparr>"
proof -
  have "remove_char (CHR '')'') (r @ '')'') = r"
    using assms(3) by (auto simp: remove_char_def filter_id_conv)
  moreover have "CHR ''('' \<notin> set (r @ '')'')" using assms(2) by simp
  ultimately show ?thesis
    using parse_organic_name[OF assms(1), of "r @ '')''"]
          parse_organic_resource[of "r @ '')''" n]
    by (cases "parse_organic (n @ ''('' @ r @ '')'')") simp
qed

lemma restructure_eq:
  "restructure raw = (fst (normalize_systems raw), map_sum id assemble (snd (normalize_systems raw)))"
  by (cases "normalize_systems raw")
     (auto simp: restructure_def then_do_def pure_def split: sum.splits)

text \<open>
  C9. For every sequence of bodies, the assembled galaxy is that sequence sorted by the
  pair (system name, body name) in ascending ordinal order: it is ordered by that key, it
  holds the same bodies, and bodies with equal keys keep their input order. The galaxy
  that \<open>restructure\<close> writes is the assembly of the normalized bodies.
\<close>

theorem assemble_sorted_by_system_and_name:
  "sorted (map (\<lambda>b. (system b, name b)) (assemble bodies)) \<and>
   mset (assemble bodies) = mset bodies \<and>
   filter (\<lambda>b. (system b, name b) = k) (assemble bodies) =
     filter (\<lambda>b. (system b, name b) = k) bodies \<and>
   snd (restructure raw) = map_sum id assemble (snd (normalize_systems raw))"
  by (simp add: sort_key_stable restructure_eq assemble_def)

theorem assemble_sorted_by_system_and_name_witness:
  "assemble [new_body\<lparr>system := ''Sol'', name := ''Venus''\<rparr>,
             new_body\<lparr>system := ''Narion'', name := ''Vectera''\<rparr>,
             new_body\<lparr>system := ''Sol'', name := ''Earth''\<rparr>] =
            [new_body\<lparr>system := ''Narion'', name := ''Vectera''\<rparr>,
             new_body\<lparr>system := ''Sol'', name := ''Earth''\<rparr>,
             new_body\<lparr>system := ''Sol'', name := ''Venus''\<rparr>] \<and>
   sorted (map (\<lambda>b. (system b, name b))
     (assemble [new_body\<lparr>system := ''Sol'', name := ''Venus''\<rparr>,
                new_body\<lparr>system := ''Narion'', name := ''Vectera''\<rparr>,
                new_body\<lparr>system := ''Sol'', name := ''Earth''\<rparr>]))"
  using assemble_sorted_by_system_and_name
    [of "[new_body\<lparr>system := ''Sol'', name := ''Venus''\<rparr>,
          new_body\<lparr>system := ''Narion'', name := ''Vectera''\<rparr>,
          new_body\<lparr>system := ''Sol'', name := ''Earth''\<rparr>]"]
  by (simp add: assemble_def new_body_def)








text \<open>
  C3, as amended. For every raw biomes list of a body that normalizes: the biomes are the
  parsed entries that did not fail, sorted by name (stably), and one diagnostic is printed
  for each entry that failed, which is dropped. An entry without a percent sign gives its
  whole text as name and coverage 0. An entry with a percent sign is cut at its last blank
  character: the name is the text before that blank (empty when there is no blank) and the
  coverage is the text after it, percent signs removed, read by \<open>float\<close> and divided
  by 100; the entry fails exactly when \<open>float\<close> rejects that text.
\<close>

theorem biomes_normalized:
  assumes "normalize_body sys bn d = (out, Inr b)"
    and "iter_field d ''biomes'' = Inr strs"
  shows "biomes b = sort_key biome_name (List.map_filter parse_biome strs) \<and>
     sorted (map biome_name (biomes b)) \<and>
     (InvalidBiome s sys bn \<in> set out \<longleftrightarrow> s \<in> set strs \<and> parse_biome s = None) \<and>
     (CHR ''%'' \<notin> set s \<longrightarrow>
        parse_biome s = Some \<lparr>biome_name = s, coverage = Finite 0\<rparr>) \<and>
     (CHR ''%'' \<in> set (n @ '' '' @ t) \<and> CHR '' '' \<notin> set t \<longrightarrow>
        parse_biome (n @ '' '' @ t) =
          map_option (\<lambda>f. \<lparr>biome_name = n, coverage = div100 f\<rparr>)
            (float_of_str (remove_char (CHR ''%'') t))) \<and>
     (CHR ''%'' \<in> set t \<and> CHR '' '' \<notin> set t \<longrightarrow>
        parse_biome t =
          map_option (\<lambda>f. \<lparr>biome_name = [], coverage = div100 f\<rparr>)
            (float_of_str (remove_char (CHR ''%'') t)))"
proof -
  from assms obtain fa fl hr pl where
    b: "biomes b = sort_key biome_name (List.map_filter parse_biome strs)" and
    out: "out = int_warning (\<lambda>v. InvalidFauna v sys bn) fa @
           int_warning (\<lambda>v. InvalidFlora v sys bn) fl @
           int_warning (\<lambda>v. InvalidHabRank v sys bn) hr @
           planet_length_warning sys bn pl @ biome_warnings sys bn strs"
    unfolding normalize_body_Inr by auto
  have s: "sorted (map biome_name (biomes b))"
    unfolding b by (rule sorted_sort_key)
  have w: "InvalidBiome s sys bn \<in> set out \<longleftrightarrow> s \<in> set strs \<and> parse_biome s = None"
    unfolding out
    by (auto simp: int_warning_def planet_length_warning_def biome_warnings_def)
  show ?thesis
    using b s w parse_biome_plain parse_biome_percent parse_biome_no_blank by blast
qed

theorem biomes_normalized_witness:
  "\<exists>out b. normalize_body ''Sol'' ''Earth''
       (example_body (JInt 3) (JStr ''24 hours'') [''Desert'', ''Swamp x%'', ''Arctic 40%''] []) =
       (out, Inr b) \<and>
     biomes b = [\<lparr>biome_name = ''Arctic'', coverage = Finite (2 / 5)\<rparr>,
                 \<lparr>biome_name = ''Desert'', coverage = Finite 0\<rparr>] \<and>
     InvalidBiome ''Swamp x%'' ''Sol'' ''Earth'' \<in> set out \<and>
     InvalidBiome ''Desert'' ''Sol'' ''Earth'' \<notin> set out"
proof -
  have nf: "\<not> int_fatal (JInt 3)" by (simp add: int_fatal_def py_int_def)
  have p: "parse_biome ''Desert'' = Some \<lparr>biome_name = ''Desert'', coverage = Finite 0\<rparr>"
    "parse_biome ''Swamp x%'' = None"
    "parse_biome ''Arctic 40%'' = Some \<lparr>biome_name = ''Arctic'', coverage = Finite (2 / 5)\<rparr>"
    by code_simp+
  have m: "sort_key biome_name (List.map_filter parse_biome [''Desert'', ''Swamp x%'', ''Arctic 40%'']) =
     [\<lparr>biome_name = ''Arctic'', coverage = Finite (2 / 5)\<rparr>,
      \<lparr>biome_name = ''Desert'', coverage = Finite 0\<rparr>]"
    by (simp add: List.map_filter_simps p)
  note run = normalize_example[OF nf, of "JStr ''24 hours''"
                 "[''Desert'', ''Swamp x%'', ''Arctic 40%'']" "[]"]
  note t = biomes_normalized[OF run example_fields(11)]
  show ?thesis
    using t[of "''Swamp x%''"] t[of "''Desert''"]
    by (simp add: run m p)
qed

theorem biomes_normalized_counterexample:
  "parse_biome ''Arctic  40%'' = Some \<lparr>biome_name = ''Arctic '', coverage = Finite (2 / 5)\<rparr> \<and>
   spec_biome_name ''Arctic  40%'' = ''Arctic'' \<and>
   map_sum id (map biome_name \<circ> biomes)
     (snd (normalize_body ''Sol'' ''Earth''
        (example_body (JInt 3) (JStr ''24 hours'') [''Arctic  40%''] []))) = Inr [''Arctic '']"
proof -
  have nf: "\<not> int_fatal (JInt 3)" by (simp add: int_fatal_def py_int_def)
  have p: "parse_biome ''Arctic  40%'' = Some \<lparr>biome_name = ''Arctic '', coverage = Finite (2 / 5)\<rparr>"
    "spec_biome_name ''Arctic  40%'' = ''Arctic''"
    by code_simp+
  show ?thesis
    by (simp add: normalize_example[OF nf] example_normalized_def List.map_filter_simps p)
qed

text \<open>
  C7, as amended. For every normalized body, every biome of its list comes from an entry of
  the raw list: from an entry without a percent sign, with coverage 0; or from an entry
  with one, with the coverage the number read from the last piece divided by 100, which no
  check confines: it lies in the closed interval from 0 to 1 when the number read is finite
  and lies between 0 and 100, and nothing holds it there otherwise.
\<close>

theorem biome_coverage_is_unchecked:
  assumes "normalize_body sys bn d = (out, Inr b)" and "bi \<in> set (biomes b)"
  shows "\<exists>strs biome_str.
     iter_field d ''biomes'' = Inr strs \<and> biome_str \<in> set strs \<and>
     parse_biome biome_str = Some bi \<and>
     (if CHR ''%'' \<in> set biome_str
      then (\<exists>f. float_of_str
                   (remove_char (CHR ''%'') (last (split_on (CHR '' '') biome_str))) = Some f \<and>
                coverage bi = div100 f \<and>
                ((\<exists>q. f = Finite q \<and> 0 \<le> q \<and> q \<le> 100) \<longrightarrow> in_unit_interval (coverage bi)))
      else coverage bi = Finite 0 \<and> in_unit_interval (coverage bi))"
proof -
  from assms(1) obtain strs where
    it: "iter_field d ''biomes'' = Inr strs" and
    b: "biomes b = sort_key biome_name (List.map_filter parse_biome strs)"
    unfolding normalize_body_Inr by auto
  from assms(2) b obtain biome_str where
    m: "biome_str \<in> set strs" and p: "parse_biome biome_str = Some bi"
    by (auto simp: set_map_filter_iff)
  show ?thesis
  proof (cases "CHR ''%'' \<in> set biome_str")
    case True
    with parse_biome_Some[OF p] obtain f where
      f: "float_of_str (remove_char (CHR ''%'') (last (split_on (CHR '' '') biome_str))) = Some f"
      "coverage bi = div100 f"
      by auto
    have "(\<exists>q. f = Finite q \<and> 0 \<le> q \<and> q \<le> 100) \<longrightarrow> in_unit_interval (coverage bi)"
      unfolding f(2) by (auto simp: in_unit_interval_div100)
    with f have e: "\<exists>f. float_of_str
                   (remove_char (CHR ''%'') (last (split_on (CHR '' '') biome_str))) = Some f \<and>
                coverage bi = div100 f \<and>
                ((\<exists>q. f = Finite q \<and> 0 \<le> q \<and> q \<le> 100) \<longrightarrow> in_unit_interval (coverage bi))"
      by blast
    show ?thesis
      by (rule exI[of _ strs], rule exI[of _ biome_str]) (simp add: it m p True e)
  next
    case False
    with parse_biome_Some[OF p] have "coverage bi = Finite 0" by simp
    with False it m p show ?thesis
      by (auto simp: in_unit_interval_def)
  qed
qed

theorem biome_coverage_is_unchecked_witness:
  "\<exists>biome_str.
     biome_str \<in> set [''Arctic 40%'', ''Desert''] \<and>
     parse_biome biome_str = Some \<lparr>biome_name = ''Arctic'', coverage = Finite (2 / 5)\<rparr> \<and>
     CHR ''%'' \<in> set biome_str \<and>
     (\<exists>f. float_of_str (remove_char (CHR ''%'') (last (split_on (CHR '' '') biome_str))) = Some f \<and>
          f = Finite 40 \<and> Finite (2 / 5) = div100 f \<and> in_unit_interval (Finite (2 / 5)))"
proof -
  have nf: "\<not> int_fatal (JInt 3)" by (simp add: int_fatal_def py_int_def)
  have p: "parse_biome ''Arctic 40%'' = Some \<lparr>biome_name = ''Arctic'', coverage = Finite (2 / 5)\<rparr>"
    "parse_biome ''Desert'' = Some \<lparr>biome_name = ''Desert'', coverage = Finite 0\<rparr>"
    by code_simp+
  have fl: "float_of_str (remove_char (CHR ''%'') (last (split_on (CHR '' '') ''Arctic 40%''))) =
              Some (Finite 40)"
    by code_simp
  note run = normalize_example[OF nf, of "JStr ''24 hours''" "[''Arctic 40%'', ''Desert'']" "[]"]
  have m: "\<lparr>biome_name = ''Arctic'', coverage = Finite (2 / 5)\<rparr> \<in> set (biomes
     (example_normalized (int_value (JInt 3)) (planet_length_value (JStr ''24 hours''))
       (sort_key biome_name (List.map_filter parse_biome [''Arctic 40%'', ''Desert'']))
       (sort_key organic_name (map parse_organic []))))"
    by (simp add: example_normalized_def List.map_filter_simps p)
  from biome_coverage_is_unchecked[OF run m] obtain strs biome_str where
    h: "iter_field (example_body (JInt 3) (JStr ''24 hours'') [''Arctic 40%'', ''Desert''] [])
          ''biomes'' = Inr strs"
       "biome_str \<in> set strs"
       "parse_biome biome_str = Some \<lparr>biome_name = ''Arctic'', coverage = Finite (2 / 5)\<rparr>"
       "if CHR ''%'' \<in> set biome_str
        then (\<exists>f. float_of_str
                   (remove_char (CHR ''%'') (last (split_on (CHR '' '') biome_str))) = Some f \<and>
                coverage \<lparr>biome_name = ''Arctic'', coverage = Finite (2 / 5)\<rparr> = div100 f \<and>
                ((\<exists>q. f = Finite q \<and> 0 \<le> q \<and> q \<le> 100) \<longrightarrow>
                 in_unit_interval (coverage \<lparr>biome_name = ''Arctic'', coverage = Finite (2 / 5)\<rparr>)))
        else coverage \<lparr>biome_name = ''Arctic'', coverage = Finite (2 / 5)\<rparr> = Finite 0 \<and>
             in_unit_interval (coverage \<lparr>biome_name = ''Arctic'', coverage = Finite (2 / 5)\<rparr>)"
    by blast
  from h(1) have s: "strs = [''Arctic 40%'', ''Desert'']" by (simp add: example_fields)
  from h(2,3) p have e: "biome_str = ''Arctic 40%''" unfolding s by auto
  from h(4) obtain f where
    f: "float_of_str (remove_char (CHR ''%'') (last (split_on (CHR '' '') ''Arctic 40%''))) = Some f"
       "Finite (2 / 5) = div100 f"
       "(\<exists>q. f = Finite q \<and> 0 \<le> q \<and> q \<le> 100) \<longrightarrow> in_unit_interval (Finite (2 / 5))"
    unfolding e by (auto split: if_splits)
  from f(1) fl have f40: "f = Finite 40" by simp
  with f(3) have u: "in_unit_interval (Finite (2 / 5))" by simp
  have "''Arctic 40%'' \<in> set [''Arctic 40%'', ''Desert'']" "CHR ''%'' \<in> set ''Arctic 40%''"
    by simp_all
  with p(1) fl f(2) f40 u show ?thesis
    by blast
qed

theorem biome_coverage_counterexample:
  "map_sum id (map coverage \<circ> biomes)
     (snd (normalize_body ''Sol'' ''Earth''
        (example_body (JInt 3) (JStr ''24 hours'') [''Lava 150%''] []))) = Inr [Finite (3 / 2)] \<and>
   \<not> in_unit_interval (Finite (3 / 2))"
proof -
  have nf: "\<not> int_fatal (JInt 3)" by (simp add: int_fatal_def py_int_def)
  have p: "parse_biome ''Lava 150%'' = Some \<lparr>biome_name = ''Lava'', coverage = Finite (3 / 2)\<rparr>"
    by code_simp
  show ?thesis
    by (simp add: normalize_example[OF nf] example_normalized_def List.map_filter_simps p
          in_unit_interval_def)
qed

text \<open>
  C8, as amended. For every domesticable or gatherable entry of a body that normalizes: the
  name is the text before the first opening parenthesis, trimmed; the resource is the text
  after the last opening parenthesis with every closing parenthesis removed, trimmed; an
  entry without an opening parenthesis gives both from its whole text. For an entry of the
  form name, opening parenthesis, resource, closing parenthesis, with no other parenthesis,
  that is the name and the resource, trimmed. Each of the two lists is sorted by name.
\<close>

theorem organics_normalized:
  assumes "normalize_body sys bn d = (out, Inr b)"
    and "iter_field d ''domesticable'' = Inr doms"
    and "iter_field d ''gatherable'' = Inr gats"
  shows "domesticable b = sort_key organic_name (map parse_organic doms) \<and>
     gatherable b = sort_key organic_name (map parse_organic gats) \<and>
     sorted (map organic_name (domesticable b)) \<and>
     sorted (map organic_name (gatherable b)) \<and>
     (CHR ''('' \<notin> set n \<longrightarrow> organic_name (parse_organic (n @ ''('' @ r)) = strip n) \<and>
     (CHR ''('' \<notin> set z \<longrightarrow>
        resource (parse_organic (p @ ''('' @ z)) = strip (remove_char (CHR '')'') z)) \<and>
     (CHR ''('' \<notin> set s \<longrightarrow>
        parse_organic s =
          \<lparr>organic_name = strip s, resource = strip (remove_char (CHR '')'') s)\<rparr>) \<and>
     (CHR ''('' \<notin> set n \<and> CHR ''('' \<notin> set z \<and> CHR '')'' \<notin> set z \<longrightarrow>
        parse_organic (n @ ''('' @ z @ '')'') = \<lparr>organic_name = strip n, resource = strip z\<rparr>)"
proof -
  from assms have
    d: "domesticable b = sort_key organic_name (map parse_organic doms)" and
    g: "gatherable b = sort_key organic_name (map parse_organic gats)"
    unfolding normalize_body_Inr by auto
  have sd: "sorted (map organic_name (domesticable b))"
    unfolding d by (rule sorted_sort_key)
  have sg: "sorted (map organic_name (gatherable b))"
    unfolding g by (rule sorted_sort_key)
  show ?thesis
    using d g sd sg parse_organic_name parse_organic_resource parse_organic_no_paren
      parse_organic_well_formed
    by blast
qed

theorem organics_normalized_witness:
  "\<exists>out b. normalize_body ''Sol'' ''Earth''
       (example_body (JInt 3) (JStr ''24 hours'') [] [''Void Sloth (Argon)'', ''Ashta (Iron)'']) =
       (out, Inr b) \<and>
     domesticable b = [\<lparr>organic_name = ''Ashta'', resource = ''Iron''\<rparr>,
                       \<lparr>organic_name = ''Void Sloth'', resource = ''Argon''\<rparr>] \<and>
     gatherable b = []"
proof -
  have nf: "\<not> int_fatal (JInt 3)" by (simp add: int_fatal_def py_int_def)
  have p: "parse_organic ''Void Sloth (Argon)'' = \<lparr>organic_name = ''Void Sloth'', resource = ''Argon''\<rparr>"
    "parse_organic ''Ashta (Iron)'' = \<lparr>organic_name = ''Ashta'', resource = ''Iron''\<rparr>"
    by code_simp+
  note run = normalize_example[OF nf, of "JStr ''24 hours''" "[]"
                 "[''Void Sloth (Argon)'', ''Ashta (Iron)'']"]
  show ?thesis
    using organics_normalized[OF run example_fields(14,15)]
    by (simp add: run p)
qed

theorem organics_normalized_counterexample:
  "resource (parse_organic ''Sloth (big) (Argon)'') = ''Argon'' \<and>
   resource (spec_parse_organic ''Sloth (big) (Argon)'') = ''big) (Argon'' \<and>
   map_sum id (map resource \<circ> domesticable)
     (snd (normalize_body ''Sol'' ''Earth''
        (example_body (JInt 3) (JStr ''24 hours'') [] [''Sloth (big) (Argon)'']))) =
     Inr [''Argon'']"
proof -
  have nf: "\<not> int_fatal (JInt 3)" by (simp add: int_fatal_def py_int_def)
  have p: "parse_organic ''Sloth (big) (Argon)'' = \<lparr>organic_name = ''Sloth'', resource = ''Argon''\<rparr>"
    "resource (spec_parse_organic ''Sloth (big) (Argon)'') = ''big) (Argon''"
    by code_simp+
  show ?thesis
    by (simp add: normalize_example[OF nf] example_normalized_def p)
qed


section \<open>Properties of create_db.py\<close>

lemma row_key_body_row_of [simp]: "row_key (body_row_of b) = body_key b"
  by (simp add: row_key_def body_row_of_def body_key_def)

lemma err_bind_Inr: "err_bind m f = Inr y \<longleftrightarrow> (\<exists>x. m = Inr x \<and> f x = Inr y)"
  by (cases m) (auto simp: err_bind_def)

lemma insert_traits_Inr:
  "insert_all (insert_trait sch) rs st = Inr st' \<Longrightarrow> st' = st\<lparr>traits_tbl := traits_tbl st @ rs\<rparr>"
proof (induction rs arbitrary: st)
  case Nil
  then show ?case by simp
next
  case (Cons r rs)
  from Cons.prems obtain st1 where
    a: "insert_trait sch st r = Inr st1" and b: "insert_all (insert_trait sch) rs st1 = Inr st'"
    by (auto split: sum.splits)
  from a have "st1 = st\<lparr>traits_tbl := traits_tbl st @ [r]\<rparr>"
    by (auto simp: insert_trait_def split: if_splits)
  with Cons.IH[OF b] show ?case by simp
qed

lemma insert_organics_Inr:
  "insert_all (insert_body_organic sch) rs st = Inr st' \<Longrightarrow> st' = st\<lparr>body_organics_tbl := body_organics_tbl st @ rs\<rparr>"
proof (induction rs arbitrary: st)
  case Nil
  then show ?case by simp
next
  case (Cons r rs)
  from Cons.prems obtain st1 where
    a: "insert_body_organic sch st r = Inr st1" and b: "insert_all (insert_body_organic sch) rs st1 = Inr st'"
    by (auto split: sum.splits)
  from a have "st1 = st\<lparr>body_organics_tbl := body_organics_tbl st @ [r]\<rparr>"
    by (auto simp: insert_body_organic_def split: if_splits)
  with Cons.IH[OF b] show ?case by simp
qed

lemma insert_biomes_Inr:
  "insert_all (insert_biome sch) rs st = Inr st' \<Longrightarrow> st' = st\<lparr>biomes_tbl := biomes_tbl st @ rs\<rparr>"
proof (induction rs arbitrary: st)
  case Nil
  then show ?case by simp
next
  case (Cons r rs)
  from Cons.prems obtain st1 where
    a: "insert_biome sch st r = Inr st1" and b: "insert_all (insert_biome sch) rs st1 = Inr st'"
    by (auto split: sum.splits)
  from a have "st1 = st\<lparr>biomes_tbl := biomes_tbl st @ [r]\<rparr>"
    by (auto simp: insert_biome_def split: if_splits)
  with Cons.IH[OF b] show ?case by simp
qed

lemma insert_systems_Inr:
  "insert_all (insert_system sch) rs st = Inr st' \<Longrightarrow> st' = st\<lparr>systems_tbl := systems_tbl st @ rs\<rparr>"
proof (induction rs arbitrary: st)
  case Nil
  then show ?case by simp
next
  case (Cons r rs)
  from Cons.prems obtain st1 where
    a: "insert_system sch st r = Inr st1" and b: "insert_all (insert_system sch) rs st1 = Inr st'"
    by (auto split: sum.splits)
  from a have "st1 = st\<lparr>systems_tbl := systems_tbl st @ [r]\<rparr>"
    by (auto simp: insert_system_def split: if_splits)
  with Cons.IH[OF b] show ?case by simp
qed

lemma insert_body_resources_Inr:
  "insert_body_resources sch m b rs st = Inr st' \<Longrightarrow>
     (\<forall>r\<in>set rs. m (lower r) \<noteq> None) \<and>
     st' = st\<lparr>body_resources_tbl := body_resources_tbl st @
             List.map_filter (\<lambda>r. map_option (\<lambda>full. (system b, name b, full)) (m (lower r))) rs\<rparr>"
proof (induction rs arbitrary: st)
  case Nil
  then show ?case by simp
next
  case (Cons r rs)
  from Cons.prems obtain full st1 where
    f: "m (lower r) = Some full" and
    a: "insert_body_resource sch st (system b, name b, full) = Inr st1" and
    c: "insert_body_resources sch m b rs st1 = Inr st'"
    by (auto simp: resolve_def split: sum.splits option.splits)
  from a have "st1 = st\<lparr>body_resources_tbl := body_resources_tbl st @ [(system b, name b, full)]\<rparr>"
    by (auto simp: insert_body_resource_def split: if_splits)
  with Cons.IH[OF c] f show ?case by simp
qed

lemma insert_children_Inr:
  assumes "insert_children sch m b st = Inr st'"
  shows "(\<forall>r\<in>set (resources b). m (lower r) \<noteq> None) \<and>
     st' = st\<lparr>traits_tbl := traits_tbl st @ trait_rows b,
              body_resources_tbl := body_resources_tbl st @ resource_rows m b,
              body_organics_tbl := body_organics_tbl st @ organic_rows b,
              biomes_tbl := biomes_tbl st @ biome_rows b\<rparr>"
proof -
  from assms obtain st1 st2 st3 where
    1: "insert_all (insert_trait sch) (trait_rows b) st = Inr st1" and
    2: "insert_body_resources sch m b (resources b) st1 = Inr st2" and
    3: "insert_all (insert_body_organic sch) (organic_rows b) st2 = Inr st3" and
    4: "insert_all (insert_biome sch) (biome_rows b) st3 = Inr st'"
    unfolding insert_children_def err_bind_Inr by blast
  from insert_traits_Inr[OF 1] insert_body_resources_Inr[OF 2] insert_organics_Inr[OF 3]
    insert_biomes_Inr[OF 4]
  show ?thesis by (simp add: resource_rows_def)
qed

lemma insert_body_resources_unresolved:
  "r \<in> set rs \<Longrightarrow> m (lower r) = None \<Longrightarrow> \<exists>e. insert_body_resources sch m b rs st = Inl e"
  by (induction rs arbitrary: st) (auto simp: resolve_def split: sum.splits option.splits)

lemma insert_children_unresolved:
  assumes "r \<in> set (resources b)" and "m (lower r) = None"
  shows "\<exists>e. insert_children sch m b st = Inl e"
proof (cases "insert_children sch m b st")
  case (Inl e)
  then show ?thesis by blast
next
  case (Inr st')
  from insert_children_Inr[OF this] assms show ?thesis by blast
qed

lemma insert_body_unresolved:
  assumes "r \<in> set (resources b)" and "m (lower r) = None"
  shows "\<exists>printed e. insert_body sch m st b = (printed, Inl e)"
proof -
  from insert_children_unresolved[of r b m, OF assms]
  have "\<And>st'. \<exists>e. insert_children sch m b st' = Inl e" .
  then show ?thesis
    by (cases "try_body_row sch st (body_row_of b)") (auto simp: insert_body_def)
qed

lemma insert_bodies_append_failing:
  assumes "\<And>st. \<exists>printed e. insert_body sch m st b = (printed, Inl e)"
  shows "fst (insert_bodies sch m st (pre @ b # post)) \<noteq> None \<and>
         fst (snd (insert_bodies sch m st (pre @ b # post))) = fst (snd (insert_bodies sch m st pre))"
proof (induction pre arbitrary: st)
  case Nil
  from assms[of st] show ?case by auto
next
  case (Cons a pre)
  show ?case
  proof (cases "insert_body sch m st a")
    case (Pair printed r)
    show ?thesis
    proof (cases r)
      case (Inl e)
      with Pair show ?thesis by simp
    next
      case (Inr st')
      with Pair Cons.IH[of st'] show ?thesis
        by (cases "insert_bodies sch m st' (pre @ b # post)";
            cases "insert_bodies sch m st' pre") auto
    qed
  qed
qed

lemma first_error_Some: "first_error es = Some e \<Longrightarrow> Some e \<in> set es"
  by (induction es rule: first_error.induct) auto

lemma bind_int_errors: "bind_int i = Some e \<Longrightarrow> e = OverflowError"
  by (simp add: bind_int_def split: if_splits)

lemma bind_json_errors: "bind_json v = Some e \<Longrightarrow> e = OverflowError \<or> e = ProgrammingError"
  by (cases v) (auto simp: bind_json_def dest: bind_int_errors)

lemma bind_body_row_errors:
  "bind_body_row row = Some e \<Longrightarrow> e = OverflowError \<or> e = ProgrammingError"
  by (auto simp: bind_body_row_def split: prod.splits
        dest!: first_error_Some
        dest: bind_int_errors bind_json_errors bind_int_errors[OF sym] bind_json_errors[OF sym])

lemma try_body_row_Inr:
  "try_body_row sch st row = Inr (st0, p) \<longleftrightarrow>
     bind_body_row row = None \<and>
     (if bodies_ok sch st row then p = [] \<and> st0 = st\<lparr>bodies_tbl := bodies_tbl st @ [row]\<rparr>
      else p = [row] \<and> st0 = st)"
proof (cases "bind_body_row row")
  case None
  then show ?thesis by (auto simp: try_body_row_def insert_body_row_def)
next
  case (Some e)
  with bind_body_row_errors[OF Some] show ?thesis
    by (auto simp: try_body_row_def insert_body_row_def)
qed

lemma try_body_row_Inl:
  "try_body_row sch st row = Inl e \<longleftrightarrow> bind_body_row row = Some e"
proof (cases "bind_body_row row")
  case None
  then show ?thesis by (simp add: try_body_row_def insert_body_row_def)
next
  case (Some e')
  with bind_body_row_errors[OF Some] show ?thesis
    by (auto simp: try_body_row_def insert_body_row_def)
qed

lemma insert_body_Inr:
  assumes "insert_body sch m st a = (p, Inr st1)"
  shows "bind_body_row (body_row_of a) = None \<and>
     (\<forall>r\<in>set (resources a). m (lower r) \<noteq> None) \<and>
     (if bodies_ok sch st (body_row_of a)
      then p = [] \<and> st1 = with_children m a (st\<lparr>bodies_tbl := bodies_tbl st @ [body_row_of a]\<rparr>)
      else p = [body_row_of a] \<and> st1 = with_children m a st)"
proof -
  from assms obtain st0 where
    t: "try_body_row sch st (body_row_of a) = Inr (st0, p)" and
    c: "insert_children sch m a st0 = Inr st1"
    by (cases "try_body_row sch st (body_row_of a)") (auto simp: insert_body_def)
  from t have b: "bind_body_row (body_row_of a) = None" and
    s: "if bodies_ok sch st (body_row_of a)
        then p = [] \<and> st0 = st\<lparr>bodies_tbl := bodies_tbl st @ [body_row_of a]\<rparr>
        else p = [body_row_of a] \<and> st0 = st"
    unfolding try_body_row_Inr by blast+
  from insert_children_Inr[OF c] have
    r: "\<forall>r\<in>set (resources a). m (lower r) \<noteq> None" and
    w: "st1 = with_children m a st0"
    by (simp_all add: with_children_def)
  show ?thesis
    using b r s w by (simp split: if_splits)
qed

lemma loaded_tables:
  "traits_tbl (loaded sch m st g) = traits_tbl st @ concat (map trait_rows g)"
  "body_resources_tbl (loaded sch m st g) = body_resources_tbl st @ concat (map (resource_rows m) g)"
  "body_organics_tbl (loaded sch m st g) = body_organics_tbl st @ concat (map organic_rows g)"
  "biomes_tbl (loaded sch m st g) = biomes_tbl st @ concat (map biome_rows g)"
  "resources_tbl (loaded sch m st g) = resources_tbl st"
  "systems_tbl (loaded sch m st g) = systems_tbl st"
  by (induction g arbitrary: st; simp add: with_children_def with_body_row_def)+

lemma loaded_bodies_subset:
  "set (bodies_tbl (loaded sch m st g)) \<subseteq> set (bodies_tbl st) \<union> body_row_of ` set g"
proof (induction g arbitrary: st)
  case Nil
  show ?case by simp
next
  case (Cons a g)
  have h: "set (bodies_tbl (with_children m a (with_body_row sch a st))) \<subseteq>
          set (bodies_tbl st) \<union> {body_row_of a}"
    by (auto simp: with_children_def with_body_row_def)
  have "set (bodies_tbl (loaded sch m st (a # g))) \<subseteq>
          set (bodies_tbl (with_children m a (with_body_row sch a st))) \<union> body_row_of ` set g"
    using Cons.IH[of "with_children m a (with_body_row sch a st)"] by simp
  also have "\<dots> \<subseteq> (set (bodies_tbl st) \<union> {body_row_of a}) \<union> body_row_of ` set g"
    using h by blast
  also have "\<dots> = set (bodies_tbl st) \<union> body_row_of ` set (a # g)"
    by auto
  finally show ?case .
qed

lemma insert_bodies_loaded:
  "\<exists>k\<le>length g.
     (fst (insert_bodies sch m st g) = None \<longleftrightarrow> k = length g) \<and>
     fst (snd (insert_bodies sch m st g)) = loaded sch m st (take k g)"
proof (induction g arbitrary: st)
  case Nil
  show ?case by simp
next
  case (Cons a g)
  obtain p r where ib: "insert_body sch m st a = (p, r)" by (cases "insert_body sch m st a")
  show ?case
  proof (cases r)
    case (Inl e)
    have "insert_bodies sch m st (a # g) = (Some e, st, p)"
      by (simp add: ib Inl)
    then show ?thesis by (intro exI[of _ 0]) simp
  next
    case (Inr st1)
    from insert_body_Inr[OF ib[unfolded Inr]]
    have st1: "st1 = with_children m a (with_body_row sch a st)"
      by (simp add: with_body_row_def split: if_splits)
    obtain r' st2 p' where ib2: "insert_bodies sch m st1 g = (r', st2, p')"
      by (cases "insert_bodies sch m st1 g")
    from Cons.IH[of st1] ib2 obtain k where k: "k \<le> length g"
      "r' = None \<longleftrightarrow> k = length g" "st2 = loaded sch m st1 (take k g)"
      by auto
    have r: "insert_bodies sch m st (a # g) = (r', st2, p @ p')"
      by (simp add: ib Inr ib2)
    have a1: "Suc k \<le> length (a # g)" using k(1) by simp
    have a2: "fst (insert_bodies sch m st (a # g)) = None \<longleftrightarrow> Suc k = length (a # g)"
      unfolding r using k(2) by simp
    have a3: "fst (snd (insert_bodies sch m st (a # g))) = loaded sch m st (take (Suc k) (a # g))"
      unfolding r using k(3) st1 by simp
    show ?thesis
      by (rule exI[of _ "Suc k"], intro conjI) (rule a1 a2 a3)+
  qed
qed

lemma resources_loop_Inr:
  "resources_loop sch data st m0 = Inr (st', m) \<Longrightarrow>
     st' = st\<lparr>resources_tbl := resources_tbl st @ data\<rparr> \<and> m = foldl add_names m0 data"
proof (induction data arbitrary: st m0)
  case Nil
  then show ?case by simp
next
  case (Cons r data)
  from Cons.prems obtain st1 where
    a: "insert_resource sch st r = Inr st1" and
    b: "resources_loop sch data st1 (add_names m0 r) = Inr (st', m)"
    by (auto split: sum.splits)
  from a have "st1 = st\<lparr>resources_tbl := resources_tbl st @ [r]\<rparr>"
    by (auto simp: insert_resource_def split: if_splits option.splits)
  with Cons.IH[OF b] show ?case by simp
qed

lemma insert_resources_Inr:
  "insert_resources sch data st = Inr (st', m) \<Longrightarrow>
     st' = st\<lparr>resources_tbl := resources_tbl st @ data\<rparr> \<and> m = shortname_map_of data"
  unfolding insert_resources_def shortname_map_of_def by (rule resources_loop_Inr)

lemma dom_foldl_names:
  "dom (foldl add_names m0 data) =
     dom m0 \<union> (\<lambda>r. lower (shortName r)) ` set data \<union> (\<lambda>r. lower (resource_name r)) ` set data"
  by (induction data arbitrary: m0) (auto simp: add_names_def)

lemma dom_shortname_map_of:
  "dom (shortname_map_of data) =
     (\<lambda>r. lower (shortName r)) ` set data \<union> (\<lambda>r. lower (resource_name r)) ` set data"
  by (simp add: shortname_map_of_def dom_foldl_names)

lemma unmatched_is_unresolved:
  assumes "\<forall>res\<in>set data. lower r \<noteq> lower (shortName res) \<and> lower r \<noteq> lower (resource_name res)"
  shows "shortname_map_of data (lower r) = None"
proof -
  from assms have "lower r \<notin> dom (shortname_map_of data)"
    unfolding dom_shortname_map_of by auto
  then show ?thesis by blast
qed

lemma connect_to_db_empty [simp]: "connect_to_db db_file = empty_store"
  by (simp add: connect_to_db_def remove_if_file_def sqlite3_connect_def split: option.splits)

lemma insert_all_accept:
  assumes "\<And>st r. ins st r = Inr (upd st r)"
  shows "\<exists>st'. insert_all ins rs st = Inr st'"
  by (induction rs arbitrary: st) (simp_all add: assms)

lemma insert_body_resources_ok:
  assumes "body_resources_ok sch = accept" and "\<forall>r\<in>set rs. m (lower r) \<noteq> None"
  shows "\<exists>st'. insert_body_resources sch m b rs st = Inr st'"
  using assms(2)
proof (induction rs arbitrary: st)
  case Nil
  show ?case by simp
next
  case (Cons r rs)
  then obtain full where f: "m (lower r) = Some full" by auto
  from Cons show ?case
    by (simp add: resolve_def f insert_body_resource_def assms(1) accept_def)
qed

lemma insert_children_ok:
  assumes "only_bodies_constrained sch" and "\<forall>r\<in>set (resources b). m (lower r) \<noteq> None"
  shows "\<exists>st'. insert_children sch m b st = Inr st'"
proof -
  from assms(1) have ok: "traits_ok sch = accept" "body_resources_ok sch = accept"
    "body_organics_ok sch = accept" "biomes_ok sch = accept"
    by (simp_all add: only_bodies_constrained_def)
  obtain st1 where 1: "insert_all (insert_trait sch) (trait_rows b) st = Inr st1"
    using insert_all_accept[of "insert_trait sch" "\<lambda>st r. st\<lparr>traits_tbl := traits_tbl st @ [r]\<rparr>"]
    by (auto simp: insert_trait_def ok accept_def)
  obtain st2 where 2: "insert_body_resources sch m b (resources b) st1 = Inr st2"
    using insert_body_resources_ok[OF ok(2) assms(2)] by blast
  obtain st3 where 3: "insert_all (insert_body_organic sch) (organic_rows b) st2 = Inr st3"
    using insert_all_accept[of "insert_body_organic sch"
            "\<lambda>st r. st\<lparr>body_organics_tbl := body_organics_tbl st @ [r]\<rparr>"]
    by (auto simp: insert_body_organic_def ok accept_def)
  obtain st4 where 4: "insert_all (insert_biome sch) (biome_rows b) st3 = Inr st4"
    using insert_all_accept[of "insert_biome sch" "\<lambda>st r. st\<lparr>biomes_tbl := biomes_tbl st @ [r]\<rparr>"]
    by (auto simp: insert_biome_def ok accept_def)
  show ?thesis
    by (simp add: insert_children_def err_bind_def 1 2 3 4)
qed

lemma insert_bodies_ok:
  assumes "only_bodies_constrained sch"
    and "\<forall>b\<in>set g. \<forall>r\<in>set (resources b). m (lower r) \<noteq> None"
    and "\<forall>b\<in>set g. bind_body_row (body_row_of b) = None"
  shows "fst (insert_bodies sch m st g) = None"
  using assms(2,3)
proof (induction g arbitrary: st)
  case Nil
  show ?case by simp
next
  case (Cons a g)
  from Cons.prems(2) have "bind_body_row (body_row_of a) = None" by simp
  then obtain st0 p where t: "try_body_row sch st (body_row_of a) = Inr (st0, p)"
    unfolding try_body_row_Inr by (cases "bodies_ok sch st (body_row_of a)") simp_all
  from Cons.prems have "\<forall>r\<in>set (resources a). m (lower r) \<noteq> None" by simp
  from insert_children_ok[OF assms(1) this] obtain st1 where
    c: "insert_children sch m a st0 = Inr st1" by blast
  obtain r' st2 p' where ib2: "insert_bodies sch m st1 g = (r', st2, p')"
    by (cases "insert_bodies sch m st1 g")
  from Cons.IH[of st1] Cons.prems ib2 have "r' = None" by simp
  then show ?case
    by (simp add: insert_body_def t c ib2)
qed

lemma insert_resources_ok:
  assumes "resources_ok sch = accept" and "list_all (\<lambda>r. bind_resource r = None) data"
  shows "insert_resources sch data st =
           Inr (st\<lparr>resources_tbl := resources_tbl st @ data\<rparr>, shortname_map_of data)"
proof -
  have "\<exists>st' m. resources_loop sch data st m0 = Inr (st', m)" for m0
    using assms(2)
    by (induction data arbitrary: st m0) (simp_all add: insert_resource_def assms(1) accept_def)
  then obtain st' m where "insert_resources sch data st = Inr (st', m)"
    unfolding insert_resources_def by blast
  with insert_resources_Inr[OF this] show ?thesis by simp
qed

lemma insert_systems_ok:
  assumes "systems_ok sch = accept"
  shows "insert_all (insert_system sch) rs st = Inr (st\<lparr>systems_tbl := systems_tbl st @ rs\<rparr>)"
proof -
  obtain st' where s: "insert_all (insert_system sch) rs st = Inr st'"
    using insert_all_accept[of "insert_system sch" "\<lambda>st r. st\<lparr>systems_tbl := systems_tbl st @ [r]\<rparr>"]
    by (auto simp: insert_system_def assms accept_def)
  with insert_systems_Inr[OF s] show ?thesis by simp
qed

lemma create_db_cases:
  "(isl (insert_resources sch data empty_store) \<and>
    exit_status (create_db sch db_file data galaxy) = 1 \<and>
    sf_db (create_db sch db_file data galaxy) = empty_store \<and>
    printed_rows (create_db sch db_file data galaxy) = []) \<or>
   (\<not> isl (insert_resources sch data empty_store) \<and>
    isl (insert_all (insert_system sch) (counts galaxy) (empty_store\<lparr>resources_tbl := data\<rparr>)) \<and>
    exit_status (create_db sch db_file data galaxy) = 1 \<and>
    sf_db (create_db sch db_file data galaxy) = empty_store\<lparr>resources_tbl := data\<rparr> \<and>
    printed_rows (create_db sch db_file data galaxy) = []) \<or>
   (\<not> isl (insert_resources sch data empty_store) \<and>
    \<not> isl (insert_all (insert_system sch) (counts galaxy) (empty_store\<lparr>resources_tbl := data\<rparr>)) \<and>
    exit_status (create_db sch db_file data galaxy) =
      (if fst (insert_bodies sch (shortname_map_of data) (before_bodies data galaxy) galaxy) = None
       then 0 else 1) \<and>
    sf_db (create_db sch db_file data galaxy) =
      fst (snd (insert_bodies sch (shortname_map_of data) (before_bodies data galaxy) galaxy)) \<and>
    printed_rows (create_db sch db_file data galaxy) =
      snd (snd (insert_bodies sch (shortname_map_of data) (before_bodies data galaxy) galaxy)))"
proof (cases "insert_resources sch data empty_store")
  case (Inl e)
  then show ?thesis by (simp add: create_db_def)
next
  case (Inr sm)
  obtain st m where sm: "sm = (st, m)" by (cases sm)
  from insert_resources_Inr[OF Inr[unfolded sm]] have
    st: "st = empty_store\<lparr>resources_tbl := data\<rparr>" and m: "m = shortname_map_of data"
    by (simp_all add: empty_store_def)
  show ?thesis
  proof (cases "insert_all (insert_system sch) (counts galaxy) st")
    case (Inl e)
    with Inr sm st show ?thesis
      by (simp add: create_db_def insert_galaxy_def)
  next
    case sys: (Inr st')
    from insert_systems_Inr[OF sys] have st': "st' = before_bodies data galaxy"
      by (simp add: st before_bodies_def empty_store_def)
    obtain r' st2 p' where ib: "insert_bodies sch m st' galaxy = (r', st2, p')"
      by (cases "insert_bodies sch m st' galaxy")
    have "create_db sch db_file data galaxy =
            \<lparr>exit_status = (if r' = None then 0 else 1), sf_db = st2, printed_rows = p'\<rparr>"
      by (cases r') (simp_all add: create_db_def insert_galaxy_def Inr sm sys ib)
    with ib sys Inr show ?thesis
      unfolding m[symmetric] st'[symmetric] st[symmetric] by simp
  qed
qed

lemma before_bodies_tables [simp]:
  "traits_tbl (before_bodies data galaxy) = []"
  "body_resources_tbl (before_bodies data galaxy) = []"
  "body_organics_tbl (before_bodies data galaxy) = []"
  "biomes_tbl (before_bodies data galaxy) = []"
  "bodies_tbl (before_bodies data galaxy) = []"
  by (simp_all add: before_bodies_def empty_store_def)

lemma empty_store_tables [simp]:
  "traits_tbl empty_store = []" "body_resources_tbl empty_store = []"
  "body_organics_tbl empty_store = []" "biomes_tbl empty_store = []"
  "bodies_tbl empty_store = []"
  by (simp_all add: empty_store_def)

lemma example_lowers:
  "lower ''Fe'' = ''fe''" "lower ''Iron'' = ''iron''" "lower ''fe'' = ''fe''"
  "lower ''IRON'' = ''iron''" "lower ''Unobtainium'' = ''unobtainium''"
  by code_simp+

lemma shortname_map_of_iron:
  "shortname_map_of [iron] = [''fe'' \<mapsto> ''Iron'', ''iron'' \<mapsto> ''Fe'']"
  by (simp add: shortname_map_of_def add_names_def iron_def example_lowers)

lemma keyed_schema_only_bodies: "only_bodies_constrained keyed_schema"
  by (simp add: only_bodies_constrained_def keyed_schema_def)

lemma with_children_bodies [simp]: "bodies_tbl (with_children m a st) = bodies_tbl st"
  by (simp add: with_children_def)



lemma all_bound_iff:
  "all_bound data galaxy \<longleftrightarrow>
     list_all (\<lambda>r. bind_resource r = None) data \<and>
     (\<forall>b\<in>set galaxy. bind_body_row (body_row_of b) = None)"
  by (simp add: all_bound_def list_all_iff)


lemma create_db_completes:
  assumes "only_bodies_constrained sch"
    and "all_bound data galaxy"
    and "\<forall>b\<in>set galaxy. \<forall>r\<in>set (resources b). shortname_map_of data (lower r) \<noteq> None"
  shows "exit_status (create_db sch db_file data galaxy) = 0"
proof -
  from assms(2) have bd: "list_all (\<lambda>r. bind_resource r = None) data"
    and bg: "\<forall>b\<in>set galaxy. bind_body_row (body_row_of b) = None"
    by (simp_all add: all_bound_iff)
  have n: "fst (insert_bodies sch (shortname_map_of data) (before_bodies data galaxy) galaxy) = None"
    using assms(1,3) bg by (rule insert_bodies_ok)
  from assms(1) have ok: "resources_ok sch = accept" "systems_ok sch = accept"
    by (simp_all add: only_bodies_constrained_def)
  have r: "\<not> isl (insert_resources sch data empty_store)"
    by (simp add: insert_resources_ok[OF ok(1) bd])
  have s: "\<not> isl (insert_all (insert_system sch) (counts galaxy)
                    (empty_store\<lparr>resources_tbl := data\<rparr>))"
    by (simp add: insert_systems_ok[OF ok(2)])
  from create_db_cases[of sch data db_file galaxy] n r s show ?thesis
    by auto
qed

lemma create_db_completed:
  assumes "exit_status (create_db sch db_file data galaxy) = 0"
  shows "sf_db (create_db sch db_file data galaxy) =
           loaded sch (shortname_map_of data) (before_bodies data galaxy) galaxy"
    and "insert_bodies sch (shortname_map_of data) (before_bodies data galaxy) galaxy =
           (None, sf_db (create_db sch db_file data galaxy),
            printed_rows (create_db sch db_file data galaxy))"
proof -
  let ?I = "insert_bodies sch (shortname_map_of data) (before_bodies data galaxy) galaxy"
  let ?R = "create_db sch db_file data galaxy"
  from assms create_db_cases[of sch data db_file galaxy] have
    n: "fst ?I = None" and db: "sf_db ?R = fst (snd ?I)" and pr: "printed_rows ?R = snd (snd ?I)"
    by (auto split: if_splits)
  from insert_bodies_loaded[of galaxy sch "shortname_map_of data" "before_bodies data galaxy"] n
  have "fst (snd ?I) = loaded sch (shortname_map_of data) (before_bodies data galaxy) galaxy"
    by auto
  with db show "sf_db ?R = loaded sch (shortname_map_of data) (before_bodies data galaxy) galaxy"
    by simp
  show "?I = (None, sf_db ?R, printed_rows ?R)"
    using n db pr by (cases ?I) simp
qed














lemma example_bound:
  "bind_resource iron = None" "bind_body_row (body_row_of (sol_body nm trs res)) = None"
  by (simp_all add: bind_resource_def iron_def bind_json_def bind_int_def bind_body_row_def
        body_row_of_def sol_body_def new_body_def)

text \<open>
  C1, at the failing input. With the catalog entry of full name Iron and short name Fe, the
  reference \<open>fe\<close> resolves to \<open>Iron\<close>, but the reference \<open>IRON\<close> resolves to the short
  name \<open>Fe\<close>: the map holds the full name under the short one and the short name under the
  full one. A body with the references \<open>fe\<close> and \<open>IRON\<close> is loaded without error, and its
  rows of \<open>body_resources\<close> hold \<open>Iron\<close> and \<open>Fe\<close>.
\<close>

theorem full_name_reference_gets_short_name:
  "resolve (shortname_map_of [iron]) ''fe'' = Inr ''Iron'' \<and>
   resolve (shortname_map_of [iron]) ''IRON'' = Inr ''Fe'' \<and>
   exit_status (create_db keyed_schema None [iron] [sol_body ''Earth'' [] [''fe'', ''IRON'']]) = 0 \<and>
   body_resources_tbl
     (sf_db (create_db keyed_schema None [iron] [sol_body ''Earth'' [] [''fe'', ''IRON'']])) =
     [(''Sol'', ''Earth'', ''Iron''), (''Sol'', ''Earth'', ''Fe'')]"
proof -
  have r: "resolve (shortname_map_of [iron]) ''fe'' = Inr ''Iron''"
    "resolve (shortname_map_of [iron]) ''IRON'' = Inr ''Fe''"
    by (simp_all add: resolve_def shortname_map_of_iron example_lowers)
  have b: "all_bound [iron] [sol_body ''Earth'' [] [''fe'', ''IRON'']]"
    by (simp add: all_bound_def example_bound)
  have h: "\<forall>b\<in>set [sol_body ''Earth'' [] [''fe'', ''IRON'']].
        \<forall>r\<in>set (resources b). shortname_map_of [iron] (lower r) \<noteq> None"
    by (simp add: sol_body_def shortname_map_of_iron example_lowers)
  note ex = create_db_completes[OF keyed_schema_only_bodies b h, of None]
  have "body_resources_tbl
     (sf_db (create_db keyed_schema None [iron] [sol_body ''Earth'' [] [''fe'', ''IRON'']])) =
     [(''Sol'', ''Earth'', ''Iron''), (''Sol'', ''Earth'', ''Fe'')]"
    unfolding create_db_completed(1)[OF ex] loaded_tables before_bodies_tables
    by (simp add: resource_rows_def sol_body_def new_body_def
          shortname_map_of_iron example_lowers)
  with r ex show ?thesis by simp
qed

text \<open>
  C2. For every galaxy and every body of it with a resource reference that matches, in
  lower case, neither the short nor the full name of any catalog entry: the run ends with
  exit status 1, and the committed child tables hold exactly the child rows of the first
  \<open>k\<close> bodies, for some \<open>k\<close> not beyond the bodies before the offending one, and the table
  of bodies holds rows of those bodies only; so no row of the offending body or of a later
  one is committed. When nothing else fails (the schema constrains the body key at most,
  the rows of the catalog and of the earlier bodies can be bound, and the references of the
  earlier bodies resolve), \<open>k\<close> is the number of bodies before the offending one.
\<close>

theorem unresolved_reference_is_fatal:
  assumes "r \<in> set (resources b)"
    and "\<forall>res\<in>set data. lower r \<noteq> lower (shortName res) \<and> lower r \<noteq> lower (resource_name res)"
  shows "exit_status (create_db sch db_file data (pre @ b # post)) = 1 \<and>
    (\<exists>k\<le>length pre.
       traits_tbl (sf_db (create_db sch db_file data (pre @ b # post))) =
         concat (map trait_rows (take k pre)) \<and>
       body_resources_tbl (sf_db (create_db sch db_file data (pre @ b # post))) =
         concat (map (resource_rows (shortname_map_of data)) (take k pre)) \<and>
       body_organics_tbl (sf_db (create_db sch db_file data (pre @ b # post))) =
         concat (map organic_rows (take k pre)) \<and>
       biomes_tbl (sf_db (create_db sch db_file data (pre @ b # post))) =
         concat (map biome_rows (take k pre)) \<and>
       set (bodies_tbl (sf_db (create_db sch db_file data (pre @ b # post)))) \<subseteq>
         body_row_of ` set (take k pre) \<and>
       (only_bodies_constrained sch \<and> all_bound data pre \<and>
        (\<forall>b'\<in>set pre. \<forall>r'\<in>set (resources b'). shortname_map_of data (lower r') \<noteq> None) \<longrightarrow>
        k = length pre))"
proof -
  let ?m = "shortname_map_of data"
  let ?g = "pre @ b # post"
  let ?st = "before_bodies data ?g"
  let ?R = "create_db sch db_file data ?g"
  have un: "?m (lower r) = None"
    using assms(2) by (rule unmatched_is_unresolved)
  have fail: "\<And>st. \<exists>printed e. insert_body sch ?m st b = (printed, Inl e)"
    using insert_body_unresolved[of r b ?m sch, OF assms(1) un] by blast
  from insert_bodies_append_failing[of sch ?m b ?st pre post, OF fail]
  have f1: "fst (insert_bodies sch ?m ?st ?g) \<noteq> None"
    and f2: "fst (snd (insert_bodies sch ?m ?st ?g)) = fst (snd (insert_bodies sch ?m ?st pre))"
    by blast+
  have zero: "exit_status ?R = 1 \<Longrightarrow> \<not> (only_bodies_constrained sch \<and> all_bound data pre) \<Longrightarrow>
      traits_tbl (sf_db ?R) = [] \<Longrightarrow> body_resources_tbl (sf_db ?R) = [] \<Longrightarrow>
      body_organics_tbl (sf_db ?R) = [] \<Longrightarrow> biomes_tbl (sf_db ?R) = [] \<Longrightarrow>
      bodies_tbl (sf_db ?R) = [] \<Longrightarrow> ?thesis"
    by (intro conjI exI[of _ "0::nat"]) auto
  from create_db_cases[of sch data db_file ?g]
  show ?thesis
  proof (elim disjE conjE)
    assume a: "exit_status ?R = 1" "sf_db ?R = empty_store"
      "isl (insert_resources sch data empty_store)"
    have "\<not> (only_bodies_constrained sch \<and> all_bound data pre)"
    proof
      assume h: "only_bodies_constrained sch \<and> all_bound data pre"
      then have "resources_ok sch = accept" "list_all (\<lambda>r. bind_resource r = None) data"
        by (simp_all add: only_bodies_constrained_def all_bound_iff)
      from insert_resources_ok[OF this, of empty_store] a(3) show False by simp
    qed
    with a(1) show ?thesis
      by (rule zero) (simp_all add: a(2))
  next
    assume a: "exit_status ?R = 1" "sf_db ?R = empty_store\<lparr>resources_tbl := data\<rparr>"
      "isl (insert_all (insert_system sch) (counts ?g) (empty_store\<lparr>resources_tbl := data\<rparr>))"
    have "\<not> (only_bodies_constrained sch \<and> all_bound data pre)"
    proof
      assume h: "only_bodies_constrained sch \<and> all_bound data pre"
      then have "systems_ok sch = accept"
        by (simp add: only_bodies_constrained_def)
      from insert_systems_ok[OF this, of "counts ?g" "empty_store\<lparr>resources_tbl := data\<rparr>"] a(3)
      show False by simp
    qed
    with a(1) show ?thesis
      by (rule zero) (simp_all add: a(2))
  next
    assume a: "exit_status ?R =
        (if fst (insert_bodies sch ?m ?st ?g) = None then 0 else 1)"
      "sf_db ?R = fst (snd (insert_bodies sch ?m ?st ?g))"
    have ex: "exit_status ?R = 1"
      using a(1) f1 by simp
    from insert_bodies_loaded[of pre sch ?m ?st] obtain k where
      k: "k \<le> length pre" "fst (insert_bodies sch ?m ?st pre) = None \<longleftrightarrow> k = length pre"
         "fst (snd (insert_bodies sch ?m ?st pre)) = loaded sch ?m ?st (take k pre)"
      by auto
    have db: "sf_db ?R = loaded sch ?m ?st (take k pre)"
      using a(2) f2 k(3) by simp
    have full: "only_bodies_constrained sch \<and> all_bound data pre \<and>
        (\<forall>b'\<in>set pre. \<forall>r'\<in>set (resources b'). ?m (lower r') \<noteq> None) \<longrightarrow> k = length pre"
    proof
      assume h: "only_bodies_constrained sch \<and> all_bound data pre \<and>
        (\<forall>b'\<in>set pre. \<forall>r'\<in>set (resources b'). ?m (lower r') \<noteq> None)"
      have "fst (insert_bodies sch ?m ?st pre) = None"
        by (rule insert_bodies_ok) (use h in \<open>simp_all add: all_bound_iff\<close>)
      with k(2) show "k = length pre" by simp
    qed
    have sub: "set (bodies_tbl (sf_db ?R)) \<subseteq> body_row_of ` set (take k pre)"
      unfolding db using loaded_bodies_subset[of sch ?m ?st "take k pre"] by simp
    have t: "traits_tbl (sf_db ?R) = concat (map trait_rows (take k pre))"
      "body_resources_tbl (sf_db ?R) = concat (map (resource_rows ?m) (take k pre))"
      "body_organics_tbl (sf_db ?R) = concat (map organic_rows (take k pre))"
      "biomes_tbl (sf_db ?R) = concat (map biome_rows (take k pre))"
      by (simp_all add: db loaded_tables)
    show ?thesis
      by (rule conjI[OF ex], rule exI[of _ k], intro conjI) (rule k(1) t sub full)+
  qed
qed

theorem unresolved_reference_is_fatal_witness:
  "exit_status (create_db keyed_schema None [iron]
     ([sol_body ''Earth'' [''Sentient Microbial Colonies''] [''fe'']] @
      sol_body ''Mars'' [''Boiled Seas''] [''Unobtainium''] #
      [sol_body ''Venus'' [''Slushy Subsurface Seas''] []])) = 1 \<and>
   traits_tbl (sf_db (create_db keyed_schema None [iron]
     ([sol_body ''Earth'' [''Sentient Microbial Colonies''] [''fe'']] @
      sol_body ''Mars'' [''Boiled Seas''] [''Unobtainium''] #
      [sol_body ''Venus'' [''Slushy Subsurface Seas''] []]))) =
     [(''Sol'', ''Earth'', ''Sentient Microbial Colonies'')] \<and>
   body_resources_tbl (sf_db (create_db keyed_schema None [iron]
     ([sol_body ''Earth'' [''Sentient Microbial Colonies''] [''fe'']] @
      sol_body ''Mars'' [''Boiled Seas''] [''Unobtainium''] #
      [sol_body ''Venus'' [''Slushy Subsurface Seas''] []]))) =
     [(''Sol'', ''Earth'', ''Iron'')]"
proof -
  have h1: "''Unobtainium'' \<in> set (resources (sol_body ''Mars'' [''Boiled Seas''] [''Unobtainium'']))"
    by (simp add: sol_body_def)
  have h2: "\<forall>res\<in>set [iron]. lower ''Unobtainium'' \<noteq> lower (shortName res) \<and>
              lower ''Unobtainium'' \<noteq> lower (resource_name res)"
    by (simp add: iron_def example_lowers)
  have b: "all_bound [iron] [sol_body ''Earth'' [''Sentient Microbial Colonies''] [''fe'']]"
    by (simp add: all_bound_def example_bound)
  have h3: "only_bodies_constrained keyed_schema \<and>
     all_bound [iron] [sol_body ''Earth'' [''Sentient Microbial Colonies''] [''fe'']] \<and>
     (\<forall>b'\<in>set [sol_body ''Earth'' [''Sentient Microbial Colonies''] [''fe'']].
        \<forall>r'\<in>set (resources b'). shortname_map_of [iron] (lower r') \<noteq> None)"
    using keyed_schema_only_bodies b
    by (simp add: sol_body_def shortname_map_of_iron example_lowers)
  from unresolved_reference_is_fatal[OF h1 h2, of keyed_schema None
         "[sol_body ''Earth'' [''Sentient Microbial Colonies''] [''fe'']]"
         "[sol_body ''Venus'' [''Slushy Subsurface Seas''] []]"] h3
  show ?thesis
    by (auto simp: trait_rows_def resource_rows_def sol_body_def new_body_def
          shortname_map_of_iron example_lowers)
qed




end
